theory Spec2Isabelle
  imports Complex_Main "HOL-Library.AList"
begin

section \<open>JavaScript objects used as tables\<close>

text \<open>
  A plain JavaScript object with string keys is an association list without duplicate
  keys, in insertion order (the order a \<^verbatim>\<open>for ... in\<close> loop visits it). Writing a
  property replaces the value in place when the key exists and appends it otherwise;
  reading a missing property gives \<^verbatim>\<open>undefined\<close>, here \<open>None\<close>.
\<close>

type_synonym 'v object = "(string \<times> 'v) list"

definition get_prop :: "'v object \<Rightarrow> string \<Rightarrow> 'v option" where
  "get_prop obj k = map_of obj k"

definition set_prop :: "string \<Rightarrow> 'v \<Rightarrow> 'v object \<Rightarrow> 'v object" where
  "set_prop k v obj = AList.update k v obj"

text \<open>
  A table whose properties may hold \<^verbatim>\<open>undefined\<close> stores optional values: reading gives
  \<^verbatim>\<open>undefined\<close> for a missing key and for a key that holds \<^verbatim>\<open>undefined\<close> alike.
\<close>

definition get_value :: "'v option object \<Rightarrow> string \<Rightarrow> 'v option" where
  "get_value obj k = (case map_of obj k of None \<Rightarrow> None | Some v \<Rightarrow> v)"

text \<open>\<^verbatim>\<open>Object.assign(target, source)\<close>; an undefined source copies nothing.\<close>

definition assign :: "'v object \<Rightarrow> 'v object option \<Rightarrow> 'v object" where
  "assign target source =
     (case source of
        None \<Rightarrow> target
      | Some src \<Rightarrow> fold (\<lambda>(k, v). set_prop k v) src target)"

text \<open>Truthiness of an optional string: \<^verbatim>\<open>undefined\<close>, \<^verbatim>\<open>null\<close> and \<^verbatim>\<open>''\<close> are falsy.\<close>

definition truthy :: "string option \<Rightarrow> bool" where
  "truthy x = (case x of None \<Rightarrow> False | Some n \<Rightarrow> n \<noteq> [])"

section \<open>GPU objects\<close>

text \<open>
  Modelled from the spec: the constants of \<^verbatim>\<open>@luma.gl/constants\<close> are not part of the
  source; nearest-neighbour filtering, clamp-to-edge wrapping and the default usage hint
  are given their WebGL values.
\<close>

definition GL_NEAREST :: nat where "GL_NEAREST = 9728"
definition GL_CLAMP_TO_EDGE :: nat where "GL_CLAMP_TO_EDGE = 33071"
definition GL_STATIC_DRAW :: nat where "GL_STATIC_DRAW = 35044"

record accessor =
  acc_size :: nat
  acc_stride :: nat

record buffer =
  byteLength :: nat
  usage :: nat
  layout :: accessor
  contents :: "real list"
  buffer_deleted :: bool

text \<open>The byte length, usage hint and layout descriptor of a buffer.\<close>

definition buffer_shape :: "buffer \<Rightarrow> nat \<times> nat \<times> accessor" where
  "buffer_shape b = (byteLength b, usage b, layout b)"

record texture =
  tex_width :: nat
  tex_height :: nat
  min_filter :: nat
  mag_filter :: nat
  wrap_s :: nat
  wrap_t :: nat
  unpack_flip_y :: bool
  texels :: "(real \<times> real \<times> real \<times> real) list"
  texture_deleted :: bool

text \<open>
  The rendering context \<^verbatim>\<open>gl\<close> holds every Buffer and Texture2D object, the caller's
  and the instance's own. An object is referred to by its handle; two references are
  the same object exactly when the handles are equal. \<open>gl_nextBuffer\<close> and
  \<open>gl_nextTexture\<close> are the handles the next \<^verbatim>\<open>new Buffer\<close> and the next texture
  clone receive.
\<close>

record gl_context =
  isWebGL2 :: bool
  gl_buffers :: "nat \<Rightarrow> buffer"
  gl_nextBuffer :: nat
  gl_textures :: "nat \<Rightarrow> texture"
  gl_nextTexture :: nat

text \<open>
  A value stored in a buffer table: a Buffer instance, an object whose \<^verbatim>\<open>buffer\<close>
  property is a Buffer instance, or some other object (a bare descriptor).
\<close>

datatype binding = IsBuffer nat | HasBuffer nat | Descriptor

definition instanceofBuffer :: "binding option \<Rightarrow> bool" where
  "instanceofBuffer v = (case v of Some (IsBuffer h) \<Rightarrow> True | _ \<Rightarrow> False)"

datatype resource = BufferResource nat | TextureResource nat

record framebuffer =
  fb_width :: nat
  fb_height :: nat
  color_attachment0 :: nat

datatype glsl_type = FLOAT | VEC2 | VEC3 | VEC4

section \<open>The Transform instance\<close>

text \<open>
  The fields of \<^verbatim>\<open>Transform\<close>. The two-element arrays are functions of the generation
  index (only 0 and 1 are ever used). In a buffer or texture table a key can hold
  \<^verbatim>\<open>undefined\<close> (\<open>None\<close>), which the swap wiring can store. A TransformFeedback object
  is represented by the buffer table it is bound to, a Framebuffer by its size and
  colour attachment; neither is shared between generations. \<open>vertexCount\<close> is the
  vertex count of \<^verbatim>\<open>this.model\<close>. \<open>sealed\<close> holds after \<^verbatim>\<open>Object.seal(this)\<close>.
\<close>

record transform =
  gl :: gl_context
  elementCount :: nat
  currentIndex :: nat
  sourceBuffers :: "nat \<Rightarrow> binding option object"
  sourceTextures :: "nat \<Rightarrow> nat option object"
  feedbackBuffers :: "nat \<Rightarrow> binding option object"
  feedbackMap :: "string object option"
  targetTextures :: "nat \<Rightarrow> nat option"
  transformFeedbacks :: "nat \<Rightarrow> binding option object option"
  framebuffers :: "nat \<Rightarrow> framebuffer option"
  resources :: "resource object"
  elementIDBuffer :: "nat option"
  targetRefTexName :: "string option"
  varyingsArray :: "string list option"
  targetTextureVarying :: "string option"
  renderingToTexture :: bool
  swapTexture :: "string option"
  hasSourceTextures :: bool
  targetTextureType :: "glsl_type option"
  vertexCount :: "nat option"
  sealed :: bool

text \<open>
  An exception leaves the method at once; the instance stays as it was at the throw.
  \<open>Inl (e, s)\<close> is exception \<open>e\<close> thrown with the instance in state \<open>s\<close>.
\<close>

datatype error = AssertionError | TypeError

type_synonym 'a result = "(error \<times> transform) + 'a"

subsection \<open>Accessors\<close>

text \<open>
  \<open>getBuffer\<close>: a falsy name (omitted, \<^verbatim>\<open>null\<close> or the empty string) reads nothing. For
  an object that is no Buffer the result is its \<^verbatim>\<open>buffer\<close> property, which a bare
  descriptor does not have.
\<close>

definition getBuffer :: "transform \<Rightarrow> string option \<Rightarrow> nat option" where
  "getBuffer s varyingName =
     (let bufferOrParams =
            (case varyingName of
               None \<Rightarrow> None
             | Some n \<Rightarrow>
                 if n \<noteq> [] then get_value (feedbackBuffers s (currentIndex s)) n else None)
      in case bufferOrParams of
           None \<Rightarrow> None
         | Some (IsBuffer h) \<Rightarrow> Some h
         | Some (HasBuffer h) \<Rightarrow> Some h
         | Some Descriptor \<Rightarrow> None)"

definition getFramebuffer :: "transform \<Rightarrow> framebuffer option" where
  "getFramebuffer s = framebuffers s (currentIndex s)"

subsection \<open>Swap\<close>

definition swap :: "transform \<Rightarrow> transform result" where
  "swap s =
     (if feedbackMap s \<noteq> None \<or> truthy (swapTexture s)
      then Inr (s\<lparr>currentIndex := (currentIndex s + 1) mod 2\<rparr>)
      else Inl (AssertionError, s))"

section \<open>Owned resources\<close>

text \<open>
  The Buffer class of \<^verbatim>\<open>@luma.gl/webgl\<close> (constructor, \<^verbatim>\<open>setData\<close>, \<^verbatim>\<open>delete\<close>,
  \<^verbatim>\<open>getData\<close>) is not part of the source. A buffer is a linear memory region with a byte
  length, a usage hint and an element-layout descriptor. The options of its constructor:
\<close>

record buffer_opts =
  opt_byteLength :: "nat option"
  opt_usage :: "nat option"
  opt_accessor :: "accessor option"
  opt_data :: "real list option"

text \<open>
  Modelled from the spec: the Buffer constructor, which is not part of the source. The
  new buffer carries the given byte length, usage and accessor (an option left
  \<^verbatim>\<open>undefined\<close> takes a default); given data (32-bit floats) it holds the data.
\<close>

definition make_buffer :: "buffer_opts \<Rightarrow> buffer" where
  "make_buffer opts =
     (let n = (case opt_data opts of
                 Some d \<Rightarrow> 4 * length d
               | None \<Rightarrow> (case opt_byteLength opts of None \<Rightarrow> 0 | Some b \<Rightarrow> b))
      in \<lparr>byteLength = n,
          usage = (case opt_usage opts of None \<Rightarrow> GL_STATIC_DRAW | Some u \<Rightarrow> u),
          layout = (case opt_accessor opts of
                      None \<Rightarrow> \<lparr>acc_size = 1, acc_stride = 0\<rparr>
                    | Some a \<Rightarrow> a),
          contents = (case opt_data opts of Some d \<Rightarrow> d | None \<Rightarrow> replicate (n div 4) 0),
          buffer_deleted = False\<rparr>)"

text \<open>
  Modelled from the spec: \<^verbatim>\<open>new Buffer(gl, opts)\<close>, which is not part of the source, makes
  an object that is distinct from every existing one.
\<close>

definition new_Buffer :: "gl_context \<Rightarrow> buffer_opts \<Rightarrow> nat \<times> gl_context" where
  "new_Buffer g opts =
     (gl_nextBuffer g,
      g\<lparr>gl_buffers := (gl_buffers g)(gl_nextBuffer g := make_buffer opts),
        gl_nextBuffer := gl_nextBuffer g + 1\<rparr>)"

text \<open>
  Modelled from the spec: \<^verbatim>\<open>setData\<close> of the Buffer class, which is not part of the source,
  replaces the data of the buffer.
\<close>

definition buffer_setData :: "nat \<Rightarrow> real list \<Rightarrow> gl_context \<Rightarrow> gl_context" where
  "buffer_setData h d g =
     g\<lparr>gl_buffers := (gl_buffers g)
          (h := (gl_buffers g h)\<lparr>byteLength := 4 * length d, contents := d\<rparr>)\<rparr>"

text \<open>
  Modelled from the spec: \<^verbatim>\<open>delete()\<close> of the Buffer and Texture2D classes, which are not
  part of the source, releases a tracked resource: it marks the object as destroyed and
  changes nothing else.
\<close>

definition delete_resource :: "resource \<Rightarrow> gl_context \<Rightarrow> gl_context" where
  "delete_resource r g =
     (case r of
        BufferResource h \<Rightarrow>
          g\<lparr>gl_buffers := (gl_buffers g)(h := (gl_buffers g h)\<lparr>buffer_deleted := True\<rparr>)\<rparr>
      | TextureResource h \<Rightarrow>
          g\<lparr>gl_textures := (gl_textures g)(h := (gl_textures g h)\<lparr>texture_deleted := True\<rparr>)\<rparr>)"

text \<open>
  \<open>createNewBuffer\<close>: the buffer is constructed, the resource registered under the name
  (if any) is deleted, then the new buffer takes the name.
\<close>

definition createNewBuffer :: "string \<Rightarrow> buffer_opts \<Rightarrow> transform \<Rightarrow> nat \<times> transform" where
  "createNewBuffer name opts s =
     (let (h, g1) = new_Buffer (gl s) opts;
          g2 = (case get_prop (resources s) name of
                  Some r \<Rightarrow> delete_resource r g1
                | None \<Rightarrow> g1)
      in (h, s\<lparr>gl := g2, resources := set_prop name (BufferResource h) (resources s)\<rparr>))"

section \<open>Configuration of buffers\<close>

text \<open>
  The options of the constructor and of \<^verbatim>\<open>update\<close>. \<open>None\<close> is an option that is not
  given. \<open>props_elementCount\<close> is \<open>None\<close> when the key \<^verbatim>\<open>elementCount\<close> is absent; a
  count is a natural number, and \<open>NotFinite\<close> stands for every value that
  \<^verbatim>\<open>Number.isFinite\<close> rejects. A target texture is given as a Texture2D object or as the
  name of a source texture.
\<close>

datatype jsnum = Finite nat | NotFinite

datatype texture_arg = Texture2D nat | NotTexture2D

datatype target_arg = TargetTexture nat | TargetRef string

record props =
  props_vs :: "string option"
  props_varyings :: "string list option"
  props_targetTextureVarying :: "string option"
  props_sourceBuffers :: "binding option object option"
  props_feedbackBuffers :: "binding option object option"
  props_destinationBuffers :: "binding option object option"
  props_feedbackMap :: "string object option"
  props_sourceDestinationMap :: "string object option"
  props_sourceTextures :: "texture_arg object option"
  props_targetTexture :: "target_arg option"
  props_swapTexture :: "string option"
  props_elementCount :: "jsnum option"

text \<open>
  \<open>deduceBufferProps\<close>: the deprecated option names stand in for the current ones, and
  every given feedback buffer must be a Buffer or carry one. Reading \<^verbatim>\<open>.buffer\<close> of
  \<^verbatim>\<open>undefined\<close> is a TypeError.
\<close>

fun check_feedbackBuffers :: "binding option object \<Rightarrow> error option" where
  "check_feedbackBuffers [] = None"
| "check_feedbackBuffers ((bufferName, v) # rest) =
     (case v of
        None \<Rightarrow> Some TypeError
      | Some Descriptor \<Rightarrow> Some AssertionError
      | Some (IsBuffer h) \<Rightarrow> check_feedbackBuffers rest
      | Some (HasBuffer h) \<Rightarrow> check_feedbackBuffers rest)"

definition deducedFeedbackBuffers :: "props \<Rightarrow> binding option object option" where
  "deducedFeedbackBuffers p =
     (if props_destinationBuffers p \<noteq> None \<and> props_feedbackBuffers p = None
      then props_destinationBuffers p else props_feedbackBuffers p)"

definition deducedFeedbackMap :: "props \<Rightarrow> string object option" where
  "deducedFeedbackMap p =
     (if props_sourceDestinationMap p \<noteq> None \<and> props_feedbackMap p = None
      then props_sourceDestinationMap p else props_feedbackMap p)"

definition deduceBufferProps ::
  "props \<Rightarrow> transform \<Rightarrow>
   (binding option object option \<times> binding option object option \<times> string object option) result"
where
  "deduceBufferProps p s =
     (case check_feedbackBuffers
             (case deducedFeedbackBuffers p of None \<Rightarrow> [] | Some fb \<Rightarrow> fb) of
        Some e \<Rightarrow> Inl (e, s)
      | None \<Rightarrow> Inr (props_sourceBuffers p, deducedFeedbackBuffers p, deducedFeedbackMap p))"

text \<open>
  \<open>createFeedbackBuffers\<close>: for each pair of the feedback map, in the order of the
  \<^verbatim>\<open>for ... in\<close> loop, a buffer is created unless the destination is the texture output
  or this call was given a feedback buffer of that name. The new buffer takes the byte
  length, usage and accessor read off the source binding; these are \<^verbatim>\<open>undefined\<close> on an
  object that is no Buffer, and destructuring a missing source is a TypeError.
\<close>

definition needsFeedbackBuffer ::
  "transform \<Rightarrow> binding option object option \<Rightarrow> string \<Rightarrow> bool" where
  "needsFeedbackBuffer s feedbackBuffersArg feedbackBufferName =
     (Some feedbackBufferName \<noteq> targetTextureVarying s \<and>
      (case feedbackBuffersArg of
         None \<Rightarrow> True
       | Some fb \<Rightarrow> get_value fb feedbackBufferName = None))"

definition source_opts :: "gl_context \<Rightarrow> binding \<Rightarrow> buffer_opts" where
  "source_opts g sourceBuffer =
     (case sourceBuffer of
        IsBuffer h \<Rightarrow>
          \<lparr>opt_byteLength = Some (byteLength (gl_buffers g h)),
           opt_usage = Some (usage (gl_buffers g h)),
           opt_accessor = Some (layout (gl_buffers g h)),
           opt_data = None\<rparr>
      | _ \<Rightarrow> \<lparr>opt_byteLength = None, opt_usage = None, opt_accessor = None, opt_data = None\<rparr>)"

definition createFeedbackBuffer :: "string \<Rightarrow> binding \<Rightarrow> transform \<Rightarrow> transform" where
  "createFeedbackBuffer feedbackBufferName sourceBuffer s =
     (let (h, s1) = createNewBuffer feedbackBufferName (source_opts (gl s) sourceBuffer) s
      in s1\<lparr>feedbackBuffers := (feedbackBuffers s1)
             (currentIndex s1 :=
                set_prop feedbackBufferName (Some (IsBuffer h))
                  (feedbackBuffers s1 (currentIndex s1)))\<rparr>)"

fun createFeedbackBuffers_loop ::
  "binding option object option \<Rightarrow> string object \<Rightarrow> transform \<Rightarrow> transform result" where
  "createFeedbackBuffers_loop fbArg [] s = Inr s"
| "createFeedbackBuffers_loop fbArg ((sourceBufferName, feedbackBufferName) # rest) s =
     (if needsFeedbackBuffer s fbArg feedbackBufferName
      then (case get_value (sourceBuffers s (currentIndex s)) sourceBufferName of
              None \<Rightarrow> Inl (TypeError, s)
            | Some sourceBuffer \<Rightarrow>
                createFeedbackBuffers_loop fbArg rest
                  (createFeedbackBuffer feedbackBufferName sourceBuffer s))
      else createFeedbackBuffers_loop fbArg rest s)"

definition createFeedbackBuffers ::
  "binding option object option \<Rightarrow> transform \<Rightarrow> transform result" where
  "createFeedbackBuffers fbArg s =
     (case feedbackMap s of
        None \<Rightarrow> Inr s
      | Some fm \<Rightarrow> createFeedbackBuffers_loop fbArg fm s)"

text \<open>
  \<open>setupSwapBuffers\<close>: the other generation first receives a copy of both tables of the
  current one; then every pair whose destination is not the texture output is
  crossed over, and the new destination must be a Buffer instance.
\<close>

definition next_index :: "transform \<Rightarrow> nat" where
  "next_index s = (currentIndex s + 1) mod 2"

definition crossBuffers :: "string \<Rightarrow> string \<Rightarrow> transform \<Rightarrow> transform" where
  "crossBuffers srcName dstName s =
     (let s1 = s\<lparr>sourceBuffers := (sourceBuffers s)
                 (next_index s :=
                    set_prop srcName (get_value (feedbackBuffers s (currentIndex s)) dstName)
                      (sourceBuffers s (next_index s)))\<rparr>
      in s1\<lparr>feedbackBuffers := (feedbackBuffers s1)
             (next_index s1 :=
                set_prop dstName (get_value (sourceBuffers s1 (currentIndex s1)) srcName)
                  (feedbackBuffers s1 (next_index s1)))\<rparr>)"

fun setupSwapBuffers_loop :: "string object \<Rightarrow> transform \<Rightarrow> transform result" where
  "setupSwapBuffers_loop [] s = Inr s"
| "setupSwapBuffers_loop ((srcName, dstName) # rest) s =
     (if Some dstName \<noteq> targetTextureVarying s
      then (let s1 = crossBuffers srcName dstName s
            in if instanceofBuffer (get_value (feedbackBuffers s1 (next_index s1)) dstName)
               then setupSwapBuffers_loop rest s1
               else Inl (AssertionError, s1))
      else setupSwapBuffers_loop rest s)"

definition setupSwapBuffers :: "transform \<Rightarrow> transform result" where
  "setupSwapBuffers s =
     (case feedbackMap s of
        None \<Rightarrow> Inr s
      | Some fm \<Rightarrow>
          (let s1 = s\<lparr>sourceBuffers := (sourceBuffers s)
                      (next_index s :=
                         assign (sourceBuffers s (next_index s))
                           (Some (sourceBuffers s (currentIndex s))))\<rparr>;
               s2 = s1\<lparr>feedbackBuffers := (feedbackBuffers s1)
                      (next_index s1 :=
                         assign (feedbackBuffers s1 (next_index s1))
                           (Some (feedbackBuffers s1 (currentIndex s1))))\<rparr>
           in setupSwapBuffers_loop fm s2))"

definition setupBuffers :: "props \<Rightarrow> transform \<Rightarrow> transform result" where
  "setupBuffers p s =
     (case deduceBufferProps p s of
        Inl e \<Rightarrow> Inl e
      | Inr (sourceBuffersArg, feedbackBuffersArg, feedbackMapArg) \<Rightarrow>
          (let s1 = (if feedbackMapArg \<noteq> None then s\<lparr>feedbackMap := feedbackMapArg\<rparr> else s);
               s2 = s1\<lparr>sourceBuffers := (sourceBuffers s1)
                      (currentIndex s :=
                         assign (sourceBuffers s1 (currentIndex s)) sourceBuffersArg)\<rparr>;
               s3 = s2\<lparr>feedbackBuffers := (feedbackBuffers s2)
                      (currentIndex s :=
                         assign (feedbackBuffers s2 (currentIndex s)) feedbackBuffersArg)\<rparr>
           in case createFeedbackBuffers feedbackBuffersArg s3 of
                Inl e \<Rightarrow> Inl e
              | Inr s4 \<Rightarrow> setupSwapBuffers s4))"

section \<open>Configuration of textures\<close>

text \<open>
  Modelled from the spec: \<^verbatim>\<open>cloneTextureFrom\<close> of \<^verbatim>\<open>@luma.gl/webgl\<close> is not part of the
  source. The clone is a new texture object that inherits the dimensions of the
  reference texture and carries the given sampling parameters and pixel-store setting;
  its texels are not yet written.
\<close>

definition cloneTextureFrom :: "gl_context \<Rightarrow> nat \<Rightarrow> nat \<times> gl_context" where
  "cloneTextureFrom g refTexture =
     (gl_nextTexture g,
      g\<lparr>gl_textures := (gl_textures g)
           (gl_nextTexture g :=
              \<lparr>tex_width = tex_width (gl_textures g refTexture),
               tex_height = tex_height (gl_textures g refTexture),
               min_filter = GL_NEAREST,
               mag_filter = GL_NEAREST,
               wrap_s = GL_CLAMP_TO_EDGE,
               wrap_t = GL_CLAMP_TO_EDGE,
               unpack_flip_y = False,
               texels = replicate (tex_width (gl_textures g refTexture) *
                                   tex_height (gl_textures g refTexture)) (0, 0, 0, 0),
               texture_deleted = False\<rparr>),
        gl_nextTexture := gl_nextTexture g + 1\<rparr>)"

text \<open>The resource name \<^verbatim>\<open>target-texture-${index}\<close>; the index is 0 or 1.\<close>

definition target_texture_name :: "nat \<Rightarrow> string" where
  "target_texture_name index =
     (if index = 0 then ''target-texture-0'' else ''target-texture-1'')"

definition buildTargetTexture :: "target_arg \<Rightarrow> nat \<Rightarrow> transform \<Rightarrow> (nat \<times> transform) result" where
  "buildTargetTexture textureOrAttribute index s =
     (case textureOrAttribute of
        TargetTexture h \<Rightarrow> Inr (h, s\<lparr>targetRefTexName := None\<rparr>)
      | TargetRef name \<Rightarrow>
          (case get_value (sourceTextures s index) name of
             None \<Rightarrow> Inl (AssertionError, s)
           | Some refTexture \<Rightarrow>
               (let s1 = s\<lparr>targetRefTexName := Some name\<rparr>;
                    (h, g1) = cloneTextureFrom (gl s1) refTexture;
                    resourceName = target_texture_name index;
                    g2 = (case get_prop (resources s1) resourceName of
                            Some r \<Rightarrow> delete_resource r g1
                          | None \<Rightarrow> g1)
                in Inr (h, s1\<lparr>gl := g2,
                               resources := set_prop resourceName (TextureResource h)
                                              (resources s1)\<rparr>))))"

definition setupSwapTextures :: "transform \<Rightarrow> transform" where
  "setupSwapTextures s =
     (if \<not> truthy (swapTexture s) \<or> \<not> truthy (targetTextureVarying s) then s
      else (case swapTexture s of
              None \<Rightarrow> s
            | Some swapName \<Rightarrow>
                (let s1 = s\<lparr>sourceTextures := (sourceTextures s)
                            (next_index s :=
                               assign (sourceTextures s (next_index s))
                                 (Some (sourceTextures s (currentIndex s))))\<rparr>;
                     s2 = s1\<lparr>sourceTextures := (sourceTextures s1)
                            (next_index s1 :=
                               set_prop swapName (targetTextures s1 (currentIndex s1))
                                 (sourceTextures s1 (next_index s1)))\<rparr>
                 in s2\<lparr>targetTextures := (targetTextures s2)
                         (next_index s2 :=
                            get_value (sourceTextures s2 (currentIndex s2)) swapName)\<rparr>)))"

text \<open>
  Modelled from the spec: the constructor of the Framebuffer class of \<^verbatim>\<open>@luma.gl/webgl\<close>,
  which is not part of the source. A render target wraps a texture as its sole colour
  output and has the given size.
\<close>

definition new_Framebuffer :: "nat \<Rightarrow> nat \<Rightarrow> nat \<Rightarrow> framebuffer" where
  "new_Framebuffer w h tex = \<lparr>fb_width = w, fb_height = h, color_attachment0 = tex\<rparr>"

text \<open>
  Modelled from the spec: \<^verbatim>\<open>update\<close> of the Framebuffer class, which is not part of the
  source, attaches the given texture in place, without resizing.
\<close>

definition framebuffer_update :: "nat \<Rightarrow> framebuffer \<Rightarrow> framebuffer" where
  "framebuffer_update tex fb = fb\<lparr>color_attachment0 := tex\<rparr>"

text \<open>
  Modelled from the spec: \<^verbatim>\<open>resize\<close> of the Framebuffer class, which is not part of the
  source, gives the render target the new size.
\<close>

definition framebuffer_resize :: "nat \<Rightarrow> nat \<Rightarrow> framebuffer \<Rightarrow> framebuffer" where
  "framebuffer_resize w h fb = fb\<lparr>fb_width := w, fb_height := h\<rparr>"

text \<open>
  \<open>setupFramebuffer\<close>: destructuring the size of an \<^verbatim>\<open>undefined\<close> texture is a TypeError.
  The id string of a new Framebuffer is left out.
\<close>

definition setupFramebuffer ::
  "framebuffer option \<Rightarrow> nat option \<Rightarrow> transform \<Rightarrow> framebuffer result" where
  "setupFramebuffer fbo tex s =
     (case tex of
        None \<Rightarrow> Inl (TypeError, s)
      | Some t \<Rightarrow>
          (let width = tex_width (gl_textures (gl s) t);
               height = tex_height (gl_textures (gl s) t)
           in case fbo of
                Some fb \<Rightarrow> Inr (framebuffer_resize width height (framebuffer_update t fb))
              | None \<Rightarrow> Inr (new_Framebuffer width height t)))"

definition setupFramebuffers :: "transform \<Rightarrow> transform result" where
  "setupFramebuffers s =
     (if \<not> renderingToTexture s then Inr s
      else (case setupFramebuffer (framebuffers s (currentIndex s))
                   (targetTextures s (currentIndex s)) s of
              Inl e \<Rightarrow> Inl e
            | Inr fb \<Rightarrow>
                (let s1 = s\<lparr>framebuffers := (framebuffers s)(currentIndex s := Some fb)\<rparr>
                 in if truthy (swapTexture s1)
                    then (case setupFramebuffer (framebuffers s1 (next_index s1))
                                 (targetTextures s1 (next_index s1)) s1 of
                            Inl e \<Rightarrow> Inl e
                          | Inr fb' \<Rightarrow>
                              Inr (s1\<lparr>framebuffers := (framebuffers s1)
                                     (next_index s1 := Some fb')\<rparr>))
                    else Inr s1)))"

text \<open>
  \<open>setupTextures\<close>, in its blocks: storing the swap-texture name, checking and
  assigning the source textures, settling and building the target texture of the current
  generation, the swap wiring and the render targets. After \<^verbatim>\<open>Object.seal\<close>, assigning \<^verbatim>\<open>this._swapTexture\<close> when the
  constructor never created that property is a TypeError (class bodies are strict code).
  When no target texture is given but one was cloned from a reference name before,
  \<^verbatim>\<open>_sourceTextures[this._targetRefTexName]\<close> is read, a TypeError if no source textures
  are given.
\<close>

fun check_sourceTextures :: "texture_arg object \<Rightarrow> bool" where
  "check_sourceTextures [] = True"
| "check_sourceTextures ((textureName, v) # rest) =
     (case v of Texture2D h \<Rightarrow> check_sourceTextures rest | NotTexture2D \<Rightarrow> False)"

definition texture_values :: "texture_arg object \<Rightarrow> nat option object" where
  "texture_values ts =
     map (\<lambda>(k, v). (k, case v of Texture2D h \<Rightarrow> Some h | NotTexture2D \<Rightarrow> None)) ts"

definition truthy_target :: "target_arg option \<Rightarrow> bool" where
  "truthy_target t =
     (case t of None \<Rightarrow> False | Some (TargetTexture h) \<Rightarrow> True | Some (TargetRef n) \<Rightarrow> n \<noteq> [])"

definition deduceTargetTexture :: "props \<Rightarrow> transform \<Rightarrow> target_arg option result" where
  "deduceTargetTexture p s =
     (if truthy (targetTextureVarying s) \<and> \<not> truthy_target (props_targetTexture p)
      then (case targetRefTexName s of
              None \<Rightarrow> Inr (props_targetTexture p)
            | Some refName \<Rightarrow>
                if refName = [] then Inr (props_targetTexture p)
                else (case props_sourceTextures p of
                        None \<Rightarrow> Inl (TypeError, s)
                      | Some ts \<Rightarrow>
                          (case map_of ts refName of
                             Some (Texture2D h) \<Rightarrow> Inr (Some (TargetRef refName))
                           | _ \<Rightarrow> Inr (props_targetTexture p))))
      else Inr (props_targetTexture p))"

definition storeSwapTexture :: "props \<Rightarrow> transform \<Rightarrow> transform" where
  "storeSwapTexture p s =
     (if truthy (props_swapTexture p) then s\<lparr>swapTexture := props_swapTexture p\<rparr> else s)"

definition assignSourceTextures :: "props \<Rightarrow> transform \<Rightarrow> transform" where
  "assignSourceTextures p s =
     (let s1 = s\<lparr>sourceTextures := (sourceTextures s)
                 (currentIndex s :=
                    assign (sourceTextures s (currentIndex s))
                      (map_option texture_values (props_sourceTextures p)))\<rparr>
      in s1\<lparr>hasSourceTextures := (sourceTextures s1 0 \<noteq> [])\<rparr>)"

definition storeTargetTexture :: "target_arg option \<Rightarrow> transform \<Rightarrow> transform result" where
  "storeTargetTexture targetTextureArg s =
     (if truthy (targetTextureVarying s) \<and> truthy_target targetTextureArg
      then (case targetTextureArg of
              None \<Rightarrow> Inr s
            | Some tt \<Rightarrow>
                (case buildTargetTexture tt (currentIndex s) s of
                   Inl e \<Rightarrow> Inl e
                 | Inr (h, s1) \<Rightarrow>
                     Inr (s1\<lparr>targetTextures := (targetTextures s1)
                            (currentIndex s := Some h)\<rparr>)))
      else Inr s)"

definition setupTextures :: "props \<Rightarrow> transform \<Rightarrow> transform result" where
  "setupTextures p s =
     (if truthy (props_swapTexture p) \<and> sealed s \<and> swapTexture s = None
      then Inl (TypeError, s)
      else
       (let s1 = storeSwapTexture p s
        in if \<not> check_sourceTextures
                  (case props_sourceTextures p of None \<Rightarrow> [] | Some ts \<Rightarrow> ts)
           then Inl (AssertionError, s1)
           else
            (let s2 = assignSourceTextures p s1
             in case deduceTargetTexture p s2 of
                  Inl e \<Rightarrow> Inl e
                | Inr targetTextureArg \<Rightarrow>
                    (case storeTargetTexture targetTextureArg s2 of
                       Inl e \<Rightarrow> Inl e
                     | Inr s3 \<Rightarrow>
                         (let s4 = setupSwapTextures s3
                          in if truthy_target targetTextureArg
                             then setupFramebuffers s4
                             else Inr s4)))))"

section \<open>Transform feedback objects and the element-index buffer\<close>

text \<open>
  Modelled from the spec: the constructor of the TransformFeedback class of
  \<^verbatim>\<open>@luma.gl/webgl\<close>, which is not part of the source. A capture object binds the program
  to a table of feedback buffers.
\<close>

definition new_TransformFeedback :: "binding option object \<Rightarrow> binding option object" where
  "new_TransformFeedback buffers = buffers"

text \<open>
  Modelled from the spec: \<^verbatim>\<open>setBuffers\<close> of the TransformFeedback class, which is not part
  of the source, rebinds an existing capture object in place.
\<close>

definition transformFeedback_setBuffers ::
  "binding option object \<Rightarrow> binding option object \<Rightarrow> binding option object" where
  "transformFeedback_setBuffers buffers tf = buffers"

definition setupTransformFeedback :: "transform \<Rightarrow> transform" where
  "setupTransformFeedback s =
     (if feedbackBuffers s (currentIndex s) = [] then s
      else
       (let s1 = s\<lparr>transformFeedbacks := (transformFeedbacks s)
                   (currentIndex s :=
                      (case transformFeedbacks s (currentIndex s) of
                         Some tf \<Rightarrow>
                           Some (transformFeedback_setBuffers
                                   (feedbackBuffers s (currentIndex s)) tf)
                       | None \<Rightarrow>
                           Some (new_TransformFeedback (feedbackBuffers s (currentIndex s)))))\<rparr>
        in if feedbackMap s1 \<noteq> None
           then s1\<lparr>transformFeedbacks := (transformFeedbacks s1)
                   (next_index s1 :=
                      (case transformFeedbacks s1 (next_index s1) of
                         Some tf \<Rightarrow>
                           Some (transformFeedback_setBuffers
                                   (feedbackBuffers s1 (next_index s1)) tf)
                       | None \<Rightarrow>
                           Some (new_TransformFeedback (feedbackBuffers s1 (next_index s1)))))\<rparr>
           else s1))"

text \<open>
  Storing an index in a \<^verbatim>\<open>Float32Array\<close> rounds it to the nearest number with a 24-bit
  significand, ties to even. \<open>excess_bits n\<close> is the number of low bits that do not fit.
\<close>

function excess_bits :: "nat \<Rightarrow> nat" where
  "excess_bits n = (if n < 2 ^ 24 then 0 else Suc (excess_bits (n div 2)))"
  by pat_completeness auto
termination
  by (relation "measure (\<lambda>n. n)") auto

definition fround :: "nat \<Rightarrow> nat" where
  "fround n =
     (let e = excess_bits n
      in if e = 0 then n
         else (let q = n div 2 ^ e; r = n mod 2 ^ e; half = 2 ^ (e - 1)
               in (if half < r \<or> (r = half \<and> odd q) then q + 1 else q) * 2 ^ e))"

definition elementIds :: "nat \<Rightarrow> real list" where
  "elementIds n = map (\<lambda>index. real (fround index)) [0..<n]"

definition updateElementIDBuffer :: "nat \<Rightarrow> transform \<Rightarrow> transform" where
  "updateElementIDBuffer n s =
     (if \<not> hasSourceTextures s \<and> \<not> truthy (targetTextureVarying s) then s
      else (case elementIDBuffer s of
              None \<Rightarrow>
                (let (h, s1) = createNewBuffer ''elementIDBuffer''
                                 \<lparr>opt_byteLength = None, opt_usage = None,
                                  opt_accessor = Some \<lparr>acc_size = 1, acc_stride = 0\<rparr>,
                                  opt_data = Some (elementIds n)\<rparr> s
                 in s1\<lparr>elementIDBuffer := Some h\<rparr>)
            | Some h \<Rightarrow> s\<lparr>gl := buffer_setData h (elementIds n) (gl s)\<rparr>))"

definition setElementCount :: "props \<Rightarrow> transform \<Rightarrow> transform result" where
  "setElementCount p s =
     (case props_elementCount p of
        None \<Rightarrow> Inr s
      | Some NotFinite \<Rightarrow> Inl (AssertionError, s)
      | Some (Finite n) \<Rightarrow>
          if elementCount s = n then Inr s
          else (let s1 = (if elementCount s < n then updateElementIDBuffer n s else s)
                in Inr (s1\<lparr>vertexCount := Some n, elementCount := n\<rparr>)))"

section \<open>Construction and update\<close>

text \<open>
  \<open>buildModel\<close>: the shader utilities (not part of the source) derive the type of the
  texture output from the vertex shader; \<open>shaderTargetTextureType\<close> is what they return.
  The Model is created with the given element count as its vertex count.
\<close>

definition buildModel :: "props \<Rightarrow> glsl_type option \<Rightarrow> transform \<Rightarrow> transform result" where
  "buildModel p shaderTargetTextureType s =
     (let s1 = s\<lparr>targetTextureType := shaderTargetTextureType,
                vertexCount := (case props_elementCount p of
                                  Some (Finite n) \<Rightarrow> Some n
                                | _ \<Rightarrow> None)\<rparr>
      in setElementCount p (setupTransformFeedback s1))"

definition storeVaryings :: "props \<Rightarrow> transform \<Rightarrow> transform" where
  "storeVaryings p s =
     (let s1 = s\<lparr>varyingsArray :=
                     (case (props_feedbackMap p, props_varyings p) of
                        (Some fm, None) \<Rightarrow> Some (map snd fm)
                      | _ \<Rightarrow> props_varyings p)\<rparr>
      in if truthy (props_targetTextureVarying p)
         then s1\<lparr>targetTextureVarying := props_targetTextureVarying p,
                 renderingToTexture := True\<rparr>
         else s1)"

definition initialize :: "props \<Rightarrow> glsl_type option \<Rightarrow> transform \<Rightarrow> transform result" where
  "initialize p shaderTargetTextureType s =
     (if \<not> truthy (props_vs p) then Inl (AssertionError, s)
      else (case setupBuffers p (storeVaryings p s) of
              Inl e \<Rightarrow> Inl e
            | Inr s1 \<Rightarrow>
                (case setupTextures p s1 of
                   Inl e \<Rightarrow> Inl e
                 | Inr s2 \<Rightarrow> buildModel p shaderTargetTextureType s2)))"

definition initial_transform :: "gl_context \<Rightarrow> transform" where
  "initial_transform g =
     \<lparr>gl = g,
      elementCount = 0,
      currentIndex = 0,
      sourceBuffers = (\<lambda>i. []),
      sourceTextures = (\<lambda>i. []),
      feedbackBuffers = (\<lambda>i. []),
      feedbackMap = None,
      targetTextures = (\<lambda>i. None),
      transformFeedbacks = (\<lambda>i. None),
      framebuffers = (\<lambda>i. None),
      resources = [],
      elementIDBuffer = None,
      targetRefTexName = None,
      varyingsArray = None,
      targetTextureVarying = None,
      renderingToTexture = False,
      swapTexture = None,
      hasSourceTextures = False,
      targetTextureType = None,
      vertexCount = None,
      sealed = False\<rparr>"

definition new_Transform :: "gl_context \<Rightarrow> props \<Rightarrow> glsl_type option \<Rightarrow> transform result" where
  "new_Transform g p shaderTargetTextureType =
     (if \<not> isWebGL2 g then Inl (AssertionError, initial_transform g)
      else (case initialize p shaderTargetTextureType (initial_transform g) of
              Inl e \<Rightarrow> Inl e
            | Inr s \<Rightarrow> Inr (s\<lparr>sealed := True\<rparr>)))"

definition update_transform :: "props \<Rightarrow> transform \<Rightarrow> transform result" where
  "update_transform opts s =
     (case setElementCount opts s of
        Inl e \<Rightarrow> Inl e
      | Inr s1 \<Rightarrow>
          (case setupBuffers opts s1 of
             Inl e \<Rightarrow> Inl e
           | Inr s2 \<Rightarrow> setupTextures opts (setupTransformFeedback s2)))"

text \<open>The options of a call that sets nothing.\<close>

definition no_props :: props where
  "no_props =
     \<lparr>props_vs = None, props_varyings = None, props_targetTextureVarying = None,
      props_sourceBuffers = None, props_feedbackBuffers = None,
      props_destinationBuffers = None, props_feedbackMap = None,
      props_sourceDestinationMap = None, props_sourceTextures = None,
      props_targetTexture = None, props_swapTexture = None, props_elementCount = None\<rparr>"

text \<open>\<open>updateTargetTexture\<close> sets the target texture of one generation.\<close>

definition updateTargetTexture :: "target_arg \<Rightarrow> nat \<Rightarrow> transform \<Rightarrow> transform result" where
  "updateTargetTexture tex index s =
     (case buildTargetTexture tex index s of
        Inl e \<Rightarrow> Inl e
      | Inr (h, s1) \<Rightarrow>
          (let s2 = s1\<lparr>targetTextures := (targetTextures s1)(index := Some h)\<rparr>
           in case framebuffers s2 index of
                None \<Rightarrow> Inr s2
              | Some fb \<Rightarrow>
                  Inr (s2\<lparr>framebuffers := (framebuffers s2)
                         (index := Some (framebuffer_resize
                                           (tex_width (gl_textures (gl s2) h))
                                           (tex_height (gl_textures (gl s2) h))
                                           (framebuffer_update h fb)))\<rparr>)))"

text \<open>\<open>delete\<close> releases every tracked resource (and then the Model, which is not modelled).\<close>

definition delete_transform :: "transform \<Rightarrow> transform" where
  "delete_transform s = s\<lparr>gl := fold (\<lambda>(name, r). delete_resource r) (resources s) (gl s)\<rparr>"

section \<open>Running the kernel\<close>

text \<open>
  The calls that \<^verbatim>\<open>run\<close> issues to its collaborators, in program order: clearing the
  colour of a render target, \<^verbatim>\<open>model.setAttributes\<close>, and \<^verbatim>\<open>model.transform\<close> with the
  capture object, the discard flag, the render target and the viewport parameter.
  The uniforms (sampler bindings, the size uniforms derived by the shader utilities and
  the caller's uniforms) and the caller's other render parameters are handed through to
  the program and are left out.
\<close>

record transform_call =
  call_transformFeedback :: "binding option object option"
  call_discard :: bool
  call_framebuffer :: "framebuffer option"
  call_viewport :: "(nat \<times> nat \<times> nat \<times> nat) option"

datatype command =
    FramebufferClearColor framebuffer
  | ModelSetAttributes "binding option object"
  | ModelTransform transform_call

record run_opts =
  opts_clearRenderTarget :: "bool option"

text \<open>
  Modelled from the spec: \<^verbatim>\<open>setParameters\<close> of the Texture2D class is not part of the
  source; it stores the given sampling parameters. Calling it on \<^verbatim>\<open>undefined\<close> is a
  TypeError.
\<close>

definition texture_setParameters :: "nat \<Rightarrow> gl_context \<Rightarrow> gl_context" where
  "texture_setParameters h g =
     g\<lparr>gl_textures := (gl_textures g)
          (h := (gl_textures g h)\<lparr>min_filter := GL_NEAREST, mag_filter := GL_NEAREST,
                                   wrap_s := GL_CLAMP_TO_EDGE, wrap_t := GL_CLAMP_TO_EDGE\<rparr>)\<rparr>"

fun setSourceTextureParameters_loop :: "nat option object \<Rightarrow> transform \<Rightarrow> transform result" where
  "setSourceTextureParameters_loop [] s = Inr s"
| "setSourceTextureParameters_loop ((name, v) # rest) s =
     (case v of
        None \<Rightarrow> Inl (TypeError, s)
      | Some h \<Rightarrow>
          setSourceTextureParameters_loop rest (s\<lparr>gl := texture_setParameters h (gl s)\<rparr>))"

definition setSourceTextureParameters :: "transform \<Rightarrow> transform result" where
  "setSourceTextureParameters s =
     setSourceTextureParameters_loop (sourceTextures s (currentIndex s)) s"

definition getInputs :: "transform \<Rightarrow> (binding option object \<times> transform) result" where
  "getInputs s =
     (let attributes = assign [] (Some (sourceBuffers s (currentIndex s)))
      in if hasSourceTextures s \<or> truthy (targetTextureVarying s)
         then (case setSourceTextureParameters s of
                 Inl e \<Rightarrow> Inl e
               | Inr s1 \<Rightarrow>
                   Inr (set_prop ''transform_elementID''
                          (map_option IsBuffer (elementIDBuffer s)) attributes, s1))
         else Inr (attributes, s))"

definition run :: "run_opts \<Rightarrow> transform \<Rightarrow> (command list \<times> transform) result" where
  "run opts s =
     (case getInputs s of
        Inl e \<Rightarrow> Inl e
      | Inr (attributes, s1) \<Rightarrow>
          (let clearRenderTarget =
                 (case opts_clearRenderTarget opts of None \<Rightarrow> True | Some b \<Rightarrow> b)
           in if renderingToTexture s1
              then (case framebuffers s1 (currentIndex s1) of
                      None \<Rightarrow> Inl (AssertionError, s1)
                    | Some fb \<Rightarrow>
                        Inr ((if clearRenderTarget then [FramebufferClearColor fb] else []) @
                             [ModelSetAttributes attributes,
                              ModelTransform
                                \<lparr>call_transformFeedback =
                                   transformFeedbacks s1 (currentIndex s1),
                                 call_discard = False,
                                 call_framebuffer = Some fb,
                                 call_viewport = Some (0, 0, fb_width fb, fb_height fb)\<rparr>],
                             s1))
              else Inr ([ModelSetAttributes attributes,
                         ModelTransform
                           \<lparr>call_transformFeedback = transformFeedbacks s1 (currentIndex s1),
                            call_discard = True,
                            call_framebuffer = None,
                            call_viewport = None\<rparr>],
                        s1)))"

section \<open>Reading results back\<close>

text \<open>
  Modelled from the spec: \<^verbatim>\<open>readPixelsToArray\<close> of \<^verbatim>\<open>@luma.gl/webgl\<close> is not part of the
  source. Reading a render target back gives a fixed layout of four channels for each
  pixel of its colour attachment. (Without a render target there is nothing to read:
  \<open>getData\<close> below fails with a TypeError.)
\<close>

definition readPixelsToArray :: "gl_context \<Rightarrow> framebuffer \<Rightarrow> real list" where
  "readPixelsToArray g fb =
     concat (map (\<lambda>(r, g, b, a). [r, g, b, a]) (texels (gl_textures g (color_attachment0 fb))))"

text \<open>
  Modelled from the spec: \<^verbatim>\<open>typeToChannelCount\<close> of \<^verbatim>\<open>@luma.gl/shadertools\<close> is not part of
  the source. It is the exact channel count implied by the format of the texture output,
  1 to 4; asking it for no type is an assertion failure (in \<open>getData\<close> below).
\<close>

definition typeToChannelCount :: "glsl_type \<Rightarrow> nat" where
  "typeToChannelCount ty = (case ty of FLOAT \<Rightarrow> 1 | VEC2 \<Rightarrow> 2 | VEC3 \<Rightarrow> 3 | VEC4 \<Rightarrow> 4)"

text \<open>
  The packing loops of \<^verbatim>\<open>getData\<close>: \<open>i\<close> runs over \<open>0, 4, 8, \<dots>\<close> below the length of
  \<open>pixels\<close> and \<open>j\<close> over the channels; a write beyond the end of a typed array is
  ignored. The pixel array holds four channels per pixel and the channel count is at
  most four, so every read \<open>pixels ! (i + j)\<close> is within the array.
\<close>

definition pack_channel :: "real list \<Rightarrow> nat \<Rightarrow> nat \<Rightarrow> real list \<times> nat \<Rightarrow> real list \<times> nat" where
  "pack_channel pixels i j acc =
     (case acc of (packedPixels, packCount) \<Rightarrow>
        (packedPixels[packCount := pixels ! (i + j)], packCount + 1))"

definition packPixels :: "real list \<Rightarrow> nat \<Rightarrow> real list" where
  "packPixels pixels channelCount =
     fst (fold (\<lambda>i acc. fold (pack_channel pixels i) [0..<channelCount] acc)
            (map (\<lambda>k. 4 * k) [0..<(length pixels + 3) div 4])
            (replicate ((length pixels * channelCount) div 4) 0, 0))"

record getData_opts =
  opts_varyingName :: "string option"
  opts_packed :: bool

definition getData :: "getData_opts \<Rightarrow> transform \<Rightarrow> real list result" where
  "getData opts s =
     (case getBuffer s (opts_varyingName opts) of
        Some h \<Rightarrow> Inr (contents (gl_buffers (gl s) h))
      | None \<Rightarrow>
          if truthy (opts_varyingName opts) \<and> opts_varyingName opts \<noteq> targetTextureVarying s
          then Inl (AssertionError, s)
          else (case framebuffers s (currentIndex s) of
                  None \<Rightarrow> Inl (TypeError, s)
                | Some fb \<Rightarrow>
                    (let pixels = readPixelsToArray (gl s) fb
                     in if \<not> opts_packed opts then Inr pixels
                        else (case targetTextureType s of
                                None \<Rightarrow> Inl (AssertionError, s)
                              | Some ty \<Rightarrow> Inr (packPixels pixels (typeToChannelCount ty))))))"

section \<open>Notions used in the statements\<close>



text \<open>
  The source name of the last pair of a feedback map, in the order in which the loops
  visit it, whose destination is \<open>name\<close>.
\<close>

fun lastSource :: "string object \<Rightarrow> string \<Rightarrow> string option" where
  "lastSource [] name = None"
| "lastSource ((srcName, dstName) # rest) name =
     (case lastSource rest name of
        Some a \<Rightarrow> Some a
      | None \<Rightarrow> if dstName = name then Some srcName else None)"




text \<open>A tracked resource has been destroyed: \<^verbatim>\<open>delete()\<close> was called on it.\<close>

definition resource_deleted :: "resource \<Rightarrow> gl_context \<Rightarrow> bool" where
  "resource_deleted r g =
     (case r of
        BufferResource h \<Rightarrow> buffer_deleted (gl_buffers g h)
      | TextureResource h \<Rightarrow> texture_deleted (gl_textures g h))"

text \<open>
  The instances a program can hold: an instance comes from the constructor and is then
  used through \<open>update\<close>, \<open>swap\<close> and \<open>run\<close>; between the calls the caller and the device
  may change the objects of the rendering context. An instance on which a call has
  thrown is not used further.
\<close>

inductive reachable :: "transform \<Rightarrow> bool" where
  constructed: "new_Transform g p t = Inr s \<Longrightarrow> reachable s"
| updated: "reachable s \<Longrightarrow> update_transform p s = Inr s' \<Longrightarrow> reachable s'"
| swapped: "reachable s \<Longrightarrow> swap s = Inr s' \<Longrightarrow> reachable s'"
| ran: "reachable s \<Longrightarrow> run opts s = Inr (cmds, s') \<Longrightarrow> reachable s'"
| context_changed: "reachable s \<Longrightarrow> reachable (s\<lparr>gl := g\<rparr>)"

text \<open>
  The same instances while nothing but the instance itself writes its element-index
  buffer: between the calls the caller and the device may change the rendering context
  as long as no buffer object disappears and the contents of that buffer stay.
\<close>

inductive undisturbed :: "transform \<Rightarrow> bool" where
  constructed: "new_Transform g p t = Inr s \<Longrightarrow> undisturbed s"
| updated: "undisturbed s \<Longrightarrow> update_transform p s = Inr s' \<Longrightarrow> undisturbed s'"
| swapped: "undisturbed s \<Longrightarrow> swap s = Inr s' \<Longrightarrow> undisturbed s'"
| ran: "undisturbed s \<Longrightarrow> run opts s = Inr (cmds, s') \<Longrightarrow> undisturbed s'"
| context_changed:
    "undisturbed s \<Longrightarrow> gl_nextBuffer (gl s) \<le> gl_nextBuffer g \<Longrightarrow>
     (\<forall>h. elementIDBuffer s = Some h \<longrightarrow>
        contents (gl_buffers g h) = contents (gl_buffers (gl s) h)) \<Longrightarrow>
     undisturbed (s\<lparr>gl := g\<rparr>)"


section \<open>Example configurations\<close>

text \<open>Concrete contexts and instances on which the theorems below are exercised.\<close>

definition example_buffer :: buffer where
  "example_buffer =
     \<lparr>byteLength = 16, usage = 35044, layout = \<lparr>acc_size = 1, acc_stride = 0\<rparr>,
      contents = [0, 1, 2, 3], buffer_deleted = False\<rparr>"

definition example_texture :: texture where
  "example_texture =
     \<lparr>tex_width = 2, tex_height = 1, min_filter = 9729, mag_filter = 9729,
      wrap_s = 10497, wrap_t = 10497, unpack_flip_y = True,
      texels = [(1, 2, 3, 4), (5, 6, 7, 8)], texture_deleted = False\<rparr>"

definition example_gl :: gl_context where
  "example_gl =
     \<lparr>isWebGL2 = True, gl_buffers = (\<lambda>h. example_buffer), gl_nextBuffer = 2,
      gl_textures = (\<lambda>h. example_texture), gl_nextTexture = 2\<rparr>"

definition swap_example :: transform where
  "swap_example = (initial_transform example_gl)\<lparr>feedbackMap := Some [(''a'', ''b'')]\<rparr>"

definition getBuffer_example :: transform where
  "getBuffer_example =
     (initial_transform example_gl)
       \<lparr>feedbackBuffers := (\<lambda>i. [(''b'', Some (HasBuffer 1))])\<rparr>"

definition crossing_props :: props where
  "crossing_props =
     no_props\<lparr>props_vs := Some ''void main() {}'',
              props_sourceBuffers := Some [(''a'', Some (IsBuffer 0))],
              props_feedbackMap := Some [(''a'', ''b'')]\<rparr>"

definition crossing_state :: transform where
  "crossing_state = projr (new_Transform example_gl crossing_props None)"

definition shared_destination_props :: props where
  "shared_destination_props =
     no_props\<lparr>props_vs := Some ''void main() {}'',
              props_sourceBuffers := Some [(''a'', Some (IsBuffer 0)), (''b'', Some (IsBuffer 1))],
              props_feedbackMap := Some [(''a'', ''c''), (''b'', ''c'')]\<rparr>"

definition shared_destination_state :: transform where
  "shared_destination_state = projr (new_Transform example_gl shared_destination_props None)"

definition texture_props :: props where
  "texture_props =
     no_props\<lparr>props_vs := Some ''void main() {}'',
              props_targetTextureVarying := Some ''outTex'',
              props_sourceTextures := Some [(''tex'', Texture2D 0)],
              props_targetTexture := Some (TargetRef ''tex''),
              props_swapTexture := Some ''tex'',
              props_elementCount := Some (Finite 2)\<rparr>"

definition texture_state :: transform where
  "texture_state = projr (new_Transform example_gl texture_props (Some VEC4))"

definition default_run :: run_opts where
  "default_run = \<lparr>opts_clearRenderTarget = None\<rparr>"











definition readback_props :: props where
  "readback_props =
     no_props\<lparr>props_vs := Some ''void main() {}'',
              props_targetTextureVarying := Some ''outTex'',
              props_sourceBuffers := Some [(''a'', Some (IsBuffer 0))],
              props_feedbackBuffers := Some [(''b'', Some (HasBuffer 1))],
              props_targetTexture := Some (TargetTexture 1),
              props_elementCount := Some (Finite 2)\<rparr>"

definition readback_state :: transform where
  "readback_state = projr (new_Transform example_gl readback_props (Some VEC2))"

definition replaced_example :: transform where
  "replaced_example =
     (initial_transform example_gl)
       \<lparr>resources := [(''b'', BufferResource 1), (''target-texture-0'', TextureResource 1)],
        sourceTextures := (\<lambda>i. [(''tex'', Some 0)])\<rparr>"

definition unattached_state :: transform where
  "unattached_state = texture_state\<lparr>framebuffers := (\<lambda>i. None)\<rparr>"

definition keep_run :: run_opts where
  "keep_run = \<lparr>opts_clearRenderTarget = Some False\<rparr>"


















section \<open>Lemmas on tables and on the configuration of buffers\<close>

lemma get_value_set_prop:
  "get_value (set_prop k v obj) k' = (if k' = k then v else get_value obj k')"
  by (simp add: get_value_def set_prop_def update_conv')

lemma get_prop_set_prop:
  "get_prop (set_prop k v obj) k' = (if k' = k then Some v else get_prop obj k')"
  by (simp add: get_prop_def set_prop_def update_conv')

lemma next_index_neq: "next_index s \<noteq> currentIndex s"
  unfolding next_index_def by presburger

lemma crossBuffers_eq:
  "crossBuffers a b s =
     s\<lparr>sourceBuffers := (sourceBuffers s)
          (next_index s := set_prop a (get_value (feedbackBuffers s (currentIndex s)) b)
                             (sourceBuffers s (next_index s))),
       feedbackBuffers := (feedbackBuffers s)
          (next_index s := set_prop b (get_value (sourceBuffers s (currentIndex s)) a)
                             (feedbackBuffers s (next_index s)))\<rparr>"
  using next_index_neq [of s] by (simp add: crossBuffers_def Let_def next_index_def)

lemma crossBuffers_fields:
  "currentIndex (crossBuffers a b s) = currentIndex s"
  "next_index (crossBuffers a b s) = next_index s"
  "targetTextureVarying (crossBuffers a b s) = targetTextureVarying s"
  "sourceBuffers (crossBuffers a b s) (currentIndex s) = sourceBuffers s (currentIndex s)"
  "feedbackBuffers (crossBuffers a b s) (currentIndex s) = feedbackBuffers s (currentIndex s)"
  using next_index_neq [of s] by (simp_all add: crossBuffers_eq next_index_def)

text \<open>The crossing loop writes only the two buffer tables of the other generation.\<close>

lemma setupSwapBuffers_loop_frame:
  "setupSwapBuffers_loop fm s = Inr s' \<Longrightarrow>
     s' = s\<lparr>sourceBuffers := sourceBuffers s', feedbackBuffers := feedbackBuffers s'\<rparr> \<and>
     sourceBuffers s' (currentIndex s) = sourceBuffers s (currentIndex s) \<and>
     feedbackBuffers s' (currentIndex s) = feedbackBuffers s (currentIndex s)"
proof (induction fm arbitrary: s)
  case Nil
  then show ?case by simp
next
  case (Cons x rest)
  obtain a b where x: "x = (a, b)" by (cases x)
  show ?case
  proof (cases "Some b \<noteq> targetTextureVarying s")
    case False
    with Cons x show ?thesis by simp
  next
    case True
    have body: "setupSwapBuffers_loop rest (crossBuffers a b s) = Inr s'"
      using Cons.prems x True by (simp add: Let_def split: if_splits)
    show ?thesis
      using Cons.IH [OF body] by (simp add: crossBuffers_fields) (simp add: crossBuffers_eq)
  qed
qed

lemma setupSwapBuffers_loop_keeps_source:
  "setupSwapBuffers_loop fm s = Inr s' \<Longrightarrow> a \<notin> fst ` set fm \<Longrightarrow>
     get_value (sourceBuffers s' (next_index s)) a = get_value (sourceBuffers s (next_index s)) a"
proof (induction fm arbitrary: s)
  case Nil
  then show ?case by simp
next
  case (Cons x rest)
  obtain a0 b0 where x: "x = (a0, b0)" by (cases x)
  have a0: "a0 \<noteq> a" and rest: "a \<notin> fst ` set rest"
    using Cons.prems(2) x by auto
  show ?case
  proof (cases "Some b0 \<noteq> targetTextureVarying s")
    case False
    with Cons x rest show ?thesis by simp
  next
    case True
    have body: "setupSwapBuffers_loop rest (crossBuffers a0 b0 s) = Inr s'"
      using Cons.prems(1) x True by (simp add: Let_def split: if_splits)
    have "get_value (sourceBuffers s' (next_index s)) a
            = get_value (sourceBuffers (crossBuffers a0 b0 s) (next_index s)) a"
      using Cons.IH [OF body rest] by (simp add: crossBuffers_fields)
    then show ?thesis
      using a0 by (simp add: crossBuffers_eq get_value_set_prop)
  qed
qed

lemma setupSwapBuffers_loop_keeps_feedback:
  "setupSwapBuffers_loop fm s = Inr s' \<Longrightarrow> b \<notin> snd ` set fm \<Longrightarrow>
     get_value (feedbackBuffers s' (next_index s)) b
       = get_value (feedbackBuffers s (next_index s)) b"
proof (induction fm arbitrary: s)
  case Nil
  then show ?case by simp
next
  case (Cons x rest)
  obtain a0 b0 where x: "x = (a0, b0)" by (cases x)
  have b0: "b0 \<noteq> b" and rest: "b \<notin> snd ` set rest"
    using Cons.prems(2) x by auto
  show ?case
  proof (cases "Some b0 \<noteq> targetTextureVarying s")
    case False
    with Cons x rest show ?thesis by simp
  next
    case True
    have body: "setupSwapBuffers_loop rest (crossBuffers a0 b0 s) = Inr s'"
      using Cons.prems(1) x True by (simp add: Let_def split: if_splits)
    have "get_value (feedbackBuffers s' (next_index s)) b
            = get_value (feedbackBuffers (crossBuffers a0 b0 s) (next_index s)) b"
      using Cons.IH [OF body rest] by (simp add: crossBuffers_fields)
    then show ?thesis
      using b0 by (simp add: crossBuffers_eq get_value_set_prop)
  qed
qed

text \<open>The last pair with a given destination.\<close>

lemma lastSource_mem: "lastSource fm b = Some a \<Longrightarrow> (a, b) \<in> set fm"
  by (induction fm b rule: lastSource.induct) (auto split: option.splits if_splits)

lemma lastSource_None: "lastSource fm b = None \<longleftrightarrow> b \<notin> snd ` set fm"
  by (induction fm b rule: lastSource.induct) (auto split: option.splits if_splits)

lemma lastSource_exists: "(a, b) \<in> set fm \<Longrightarrow> \<exists>a'. lastSource fm b = Some a'"
proof (cases "lastSource fm b")
  case None
  assume "(a, b) \<in> set fm"
  then have "b \<in> snd ` set fm" by force
  with None show ?thesis by (simp add: lastSource_None)
next
  case (Some a')
  then show ?thesis by simp
qed

lemma lastSource_last:
  "b \<notin> snd ` set post \<Longrightarrow> lastSource (pre @ (a, b) # post) b = Some a"
proof (induction pre)
  case Nil
  then have "lastSource post b = None" by (simp add: lastSource_None)
  then show ?case by simp
next
  case (Cons x pre)
  obtain a0 b0 where x: "x = (a0, b0)" by (cases x)
  show ?case using Cons x by simp
qed

lemma lastSource_unique:
  assumes "(a, b) \<in> set fm" and "\<forall>a'. (a', b) \<in> set fm \<longrightarrow> a' = a"
  shows "lastSource fm b = Some a"
proof -
  obtain a' where l: "lastSource fm b = Some a'"
    using lastSource_exists [OF assms(1)] by blast
  then have "(a', b) \<in> set fm" by (rule lastSource_mem)
  then have "a' = a" using assms(2) by blast
  with l show ?thesis by simp
qed

lemma lastSource_split:
  "lastSource fm b = Some a \<Longrightarrow> \<exists>pre post. fm = pre @ (a, b) # post \<and> b \<notin> snd ` set post"
proof (induction fm)
  case Nil
  then show ?case by simp
next
  case (Cons x rest)
  obtain a0 b0 where x: "x = (a0, b0)" by (cases x)
  show ?case
  proof (cases "lastSource rest b")
    case None
    then have "b0 = b" "a0 = a" using Cons.prems x by (auto split: if_splits)
    moreover have "b \<notin> snd ` set rest" using None by (simp add: lastSource_None)
    ultimately have "x # rest = [] @ (a, b) # rest \<and> b \<notin> snd ` set rest"
      using x by simp
    then show ?thesis by blast
  next
    case (Some a1)
    then have "lastSource rest b = Some a" using Cons.prems x by simp
    then obtain pre post where "rest = pre @ (a, b) # post" "b \<notin> snd ` set post"
      using Cons.IH by blast
    then have "x # rest = (x # pre) @ (a, b) # post \<and> b \<notin> snd ` set post" by simp
    then show ?thesis by blast
  qed
qed

lemma lastSource_iff:
  "lastSource fm b = Some a \<longleftrightarrow> (\<exists>pre post. fm = pre @ (a, b) # post \<and> b \<notin> snd ` set post)"
  using lastSource_split [of fm b a] lastSource_last [of b _ _ a] by blast

text \<open>
  Every pair is crossed on the source side; on the feedback side the last pair with the
  destination stays.
\<close>

lemma setupSwapBuffers_loop_source:
  assumes "setupSwapBuffers_loop fm s = Inr s'"
      and "(a, b) \<in> set fm"
      and "Some b \<noteq> targetTextureVarying s"
      and "distinct (map fst fm)"
  shows "get_value (sourceBuffers s' (next_index s)) a
           = get_value (feedbackBuffers s (currentIndex s)) b"
  using assms
proof (induction fm arbitrary: s)
  case Nil
  then show ?case by simp
next
  case (Cons x rest)
  obtain a0 b0 where x: "x = (a0, b0)" by (cases x)
  show ?case
  proof (cases "x = (a, b)")
    case True
    have body: "setupSwapBuffers_loop rest (crossBuffers a b s) = Inr s'"
      using Cons.prems(1,3) True by (simp add: Let_def split: if_splits)
    have a_rest: "a \<notin> fst ` set rest"
      using Cons.prems(4) True by (force simp: image_iff)
    have "get_value (sourceBuffers s' (next_index s)) a
            = get_value (sourceBuffers (crossBuffers a b s) (next_index s)) a"
      using setupSwapBuffers_loop_keeps_source [OF body a_rest]
      by (simp add: crossBuffers_fields)
    then show ?thesis
      by (simp add: crossBuffers_eq get_value_set_prop)
  next
    case False
    then have mem: "(a, b) \<in> set rest" using Cons.prems(2) by simp
    have dist: "distinct (map fst rest)" using Cons.prems(4) by simp
    show ?thesis
    proof (cases "Some b0 \<noteq> targetTextureVarying s")
      case False
      then have "setupSwapBuffers_loop rest s = Inr s'" using Cons.prems(1) x by simp
      from Cons.IH [OF this mem Cons.prems(3) dist] show ?thesis .
    next
      case True
      have body: "setupSwapBuffers_loop rest (crossBuffers a0 b0 s) = Inr s'"
        using Cons.prems(1) x True by (simp add: Let_def split: if_splits)
      have ttv: "Some b \<noteq> targetTextureVarying (crossBuffers a0 b0 s)"
        using Cons.prems(3) by (simp add: crossBuffers_fields)
      from Cons.IH [OF body mem ttv dist] show ?thesis
        by (simp add: crossBuffers_fields)
    qed
  qed
qed

lemma setupSwapBuffers_loop_feedback:
  assumes "setupSwapBuffers_loop fm s = Inr s'"
      and "lastSource fm b = Some a"
      and "Some b \<noteq> targetTextureVarying s"
  shows "get_value (feedbackBuffers s' (next_index s)) b
           = get_value (sourceBuffers s (currentIndex s)) a"
  using assms
proof (induction fm arbitrary: s)
  case Nil
  then show ?case by simp
next
  case (Cons x rest)
  obtain a0 b0 where x: "x = (a0, b0)" by (cases x)
  show ?case
  proof (cases "lastSource rest b")
    case None
    then have e: "b0 = b" "a0 = a"
      using Cons.prems(2) x by (auto split: if_splits)
    have b_rest: "b \<notin> snd ` set rest"
      using None by (simp add: lastSource_None)
    have body: "setupSwapBuffers_loop rest (crossBuffers a b s) = Inr s'"
      using Cons.prems(1,3) x e by (simp add: Let_def split: if_splits)
    have "get_value (feedbackBuffers s' (next_index s)) b
            = get_value (feedbackBuffers (crossBuffers a b s) (next_index s)) b"
      using setupSwapBuffers_loop_keeps_feedback [OF body b_rest]
      by (simp add: crossBuffers_fields)
    then show ?thesis
      by (simp add: crossBuffers_eq get_value_set_prop)
  next
    case (Some a1)
    then have last: "lastSource rest b = Some a"
      using Cons.prems(2) x by simp
    show ?thesis
    proof (cases "Some b0 \<noteq> targetTextureVarying s")
      case False
      then have "setupSwapBuffers_loop rest s = Inr s'" using Cons.prems(1) x by simp
      from Cons.IH [OF this last Cons.prems(3)] show ?thesis .
    next
      case True
      have body: "setupSwapBuffers_loop rest (crossBuffers a0 b0 s) = Inr s'"
        using Cons.prems(1) x True by (simp add: Let_def split: if_splits)
      have ttv: "Some b \<noteq> targetTextureVarying (crossBuffers a0 b0 s)"
        using Cons.prems(3) by (simp add: crossBuffers_fields)
      from Cons.IH [OF body last ttv] show ?thesis
        by (simp add: crossBuffers_fields)
    qed
  qed
qed

lemma setupSwapBuffers_frame:
  "setupSwapBuffers s = Inr s' \<Longrightarrow>
     s' = s\<lparr>sourceBuffers := sourceBuffers s', feedbackBuffers := feedbackBuffers s'\<rparr> \<and>
     sourceBuffers s' (currentIndex s) = sourceBuffers s (currentIndex s) \<and>
     feedbackBuffers s' (currentIndex s) = feedbackBuffers s (currentIndex s)"
proof (cases "feedbackMap s")
  case None
  assume "setupSwapBuffers s = Inr s'"
  with None show ?thesis by (simp add: setupSwapBuffers_def)
next
  case (Some fm)
  assume run: "setupSwapBuffers s = Inr s'"
  define s2 where "s2 = s\<lparr>sourceBuffers := (sourceBuffers s)
                      (next_index s :=
                         assign (sourceBuffers s (next_index s))
                           (Some (sourceBuffers s (currentIndex s)))),
                    feedbackBuffers := (feedbackBuffers s)
                      (next_index s :=
                         assign (feedbackBuffers s (next_index s))
                           (Some (feedbackBuffers s (currentIndex s))))\<rparr>"
  have loop: "setupSwapBuffers_loop fm s2 = Inr s'"
    using run Some next_index_neq [of s]
    by (simp add: setupSwapBuffers_def Let_def s2_def next_index_def)
  show ?thesis
    using setupSwapBuffers_loop_frame [OF loop] next_index_neq [of s] by (simp add: s2_def)
qed

lemma setupSwapBuffers_crosses:
  assumes "setupSwapBuffers s = Inr s'"
      and "feedbackMap s = Some fm"
      and "Some b \<noteq> targetTextureVarying s"
  shows "(a, b) \<in> set fm \<Longrightarrow> distinct (map fst fm) \<Longrightarrow>
           get_value (sourceBuffers s' (next_index s)) a
             = get_value (feedbackBuffers s (currentIndex s)) b"
    and "lastSource fm b = Some a' \<Longrightarrow>
           get_value (feedbackBuffers s' (next_index s)) b
             = get_value (sourceBuffers s (currentIndex s)) a'"
proof -
  define s2 where "s2 = s\<lparr>sourceBuffers := (sourceBuffers s)
                      (next_index s :=
                         assign (sourceBuffers s (next_index s))
                           (Some (sourceBuffers s (currentIndex s)))),
                    feedbackBuffers := (feedbackBuffers s)
                      (next_index s :=
                         assign (feedbackBuffers s (next_index s))
                           (Some (feedbackBuffers s (currentIndex s))))\<rparr>"
  have loop: "setupSwapBuffers_loop fm s2 = Inr s'"
    using assms(1,2) next_index_neq [of s]
    by (simp add: setupSwapBuffers_def Let_def s2_def next_index_def)
  have ttv: "Some b \<noteq> targetTextureVarying s2"
    using assms(3) by (simp add: s2_def)
  show "get_value (sourceBuffers s' (next_index s)) a
             = get_value (feedbackBuffers s (currentIndex s)) b"
    if "(a, b) \<in> set fm" "distinct (map fst fm)"
    using setupSwapBuffers_loop_source [OF loop that(1) ttv that(2)] next_index_neq [of s]
    by (simp add: s2_def next_index_def)
  show "get_value (feedbackBuffers s' (next_index s)) b
             = get_value (sourceBuffers s (currentIndex s)) a'"
    if "lastSource fm b = Some a'"
    using setupSwapBuffers_loop_feedback [OF loop that ttv] next_index_neq [of s]
    by (simp add: s2_def next_index_def)
qed

text \<open>Creating feedback buffers.\<close>

lemma createNewBuffer_eq:
  "createNewBuffer name opts s =
     (gl_nextBuffer (gl s),
      s\<lparr>gl := (case get_prop (resources s) name of
                 Some r \<Rightarrow> delete_resource r (snd (new_Buffer (gl s) opts))
               | None \<Rightarrow> snd (new_Buffer (gl s) opts)),
        resources := set_prop name (BufferResource (gl_nextBuffer (gl s))) (resources s)\<rparr>)"
  by (cases "get_prop (resources s) name") (simp_all add: createNewBuffer_def new_Buffer_def)

lemma createFeedbackBuffer_eq:
  "createFeedbackBuffer d sb s =
     s\<lparr>gl := gl (snd (createNewBuffer d (source_opts (gl s) sb) s)),
       resources := set_prop d (BufferResource (gl_nextBuffer (gl s))) (resources s),
       feedbackBuffers := (feedbackBuffers s)
         (currentIndex s := set_prop d (Some (IsBuffer (gl_nextBuffer (gl s))))
                              (feedbackBuffers s (currentIndex s)))\<rparr>"
  by (simp add: createFeedbackBuffer_def createNewBuffer_eq)

lemma needsFeedbackBuffer_cong:
  "targetTextureVarying s' = targetTextureVarying s \<Longrightarrow>
     needsFeedbackBuffer s' fbArg d = needsFeedbackBuffer s fbArg d"
  by (simp add: needsFeedbackBuffer_def)

lemma createFeedbackBuffers_loop_frame:
  "createFeedbackBuffers_loop fbArg fm s = Inr s' \<Longrightarrow>
     s' = s\<lparr>gl := gl s', resources := resources s', feedbackBuffers := feedbackBuffers s'\<rparr> \<and>
     (\<forall>i. i \<noteq> currentIndex s \<longrightarrow> feedbackBuffers s' i = feedbackBuffers s i)"
proof (induction fm arbitrary: s)
  case Nil
  then show ?case by simp
next
  case (Cons x rest)
  obtain a d where x: "x = (a, d)" by (cases x)
  show ?case
  proof (cases "needsFeedbackBuffer s fbArg d")
    case False
    with Cons x show ?thesis by simp
  next
    case True
    then obtain sb where sb: "get_value (sourceBuffers s (currentIndex s)) a = Some sb"
      and body: "createFeedbackBuffers_loop fbArg rest (createFeedbackBuffer d sb s) = Inr s'"
      using Cons.prems x by (auto split: option.splits)
    show ?thesis
      using Cons.IH [OF body] by (simp add: createFeedbackBuffer_eq)
  qed
qed

lemma createFeedbackBuffers_frame:
  "createFeedbackBuffers fbArg s = Inr s' \<Longrightarrow>
     s' = s\<lparr>gl := gl s', resources := resources s', feedbackBuffers := feedbackBuffers s'\<rparr> \<and>
     (\<forall>i. i \<noteq> currentIndex s \<longrightarrow> feedbackBuffers s' i = feedbackBuffers s i)"
  using createFeedbackBuffers_loop_frame [of fbArg _ s s']
  by (cases "feedbackMap s") (auto simp: createFeedbackBuffers_def)

text \<open>The state that the crossing step of \<open>setupBuffers\<close> starts from.\<close>

lemma setupBuffers_steps:
  assumes "setupBuffers p s = Inr s'"
  shows "\<exists>s3 s4.
           createFeedbackBuffers (deducedFeedbackBuffers p) s3 = Inr s4 \<and>
           setupSwapBuffers s4 = Inr s' \<and>
           s3 = s\<lparr>feedbackMap := feedbackMap s3, sourceBuffers := sourceBuffers s3,
                   feedbackBuffers := feedbackBuffers s3\<rparr> \<and>
           feedbackBuffers s3 (currentIndex s)
             = assign (feedbackBuffers s (currentIndex s)) (deducedFeedbackBuffers p)"
proof -
  have d: "deduceBufferProps p s
             = Inr (props_sourceBuffers p, deducedFeedbackBuffers p, deducedFeedbackMap p)"
    using assms by (auto simp: setupBuffers_def deduceBufferProps_def split: sum.splits option.splits)
  define s3 where "s3 = (if deducedFeedbackMap p \<noteq> None
                         then s\<lparr>feedbackMap := deducedFeedbackMap p\<rparr> else s)
       \<lparr>sourceBuffers := (sourceBuffers s)
          (currentIndex s := assign (sourceBuffers s (currentIndex s)) (props_sourceBuffers p)),
        feedbackBuffers := (feedbackBuffers s)
          (currentIndex s := assign (feedbackBuffers s (currentIndex s))
                               (deducedFeedbackBuffers p))\<rparr>"
  obtain s4 where c: "createFeedbackBuffers (deducedFeedbackBuffers p) s3 = Inr s4"
    and w: "setupSwapBuffers s4 = Inr s'"
    using assms d by (auto simp: setupBuffers_def Let_def s3_def split: sum.splits if_splits)
  have "s3 = s\<lparr>feedbackMap := feedbackMap s3, sourceBuffers := sourceBuffers s3,
                   feedbackBuffers := feedbackBuffers s3\<rparr>"
    by (simp add: s3_def)
  moreover have "feedbackBuffers s3 (currentIndex s)
             = assign (feedbackBuffers s (currentIndex s)) (deducedFeedbackBuffers p)"
    by (simp add: s3_def)
  ultimately show ?thesis using c w by blast
qed

lemma setupBuffers_frame:
  assumes "setupBuffers p s = Inr s'"
  shows "s' = s\<lparr>gl := gl s', feedbackMap := feedbackMap s', sourceBuffers := sourceBuffers s',
                feedbackBuffers := feedbackBuffers s', resources := resources s'\<rparr>"
proof -
  obtain s3 s4 where c: "createFeedbackBuffers (deducedFeedbackBuffers p) s3 = Inr s4"
    and w: "setupSwapBuffers s4 = Inr s'"
    and s3: "s3 = s\<lparr>feedbackMap := feedbackMap s3, sourceBuffers := sourceBuffers s3,
                   feedbackBuffers := feedbackBuffers s3\<rparr>"
    using setupBuffers_steps [OF assms] by blast
  have f4: "s4 = s3\<lparr>gl := gl s4, resources := resources s4, feedbackBuffers := feedbackBuffers s4\<rparr>"
    using createFeedbackBuffers_frame [OF c] by simp
  have f5: "s' = s4\<lparr>sourceBuffers := sourceBuffers s', feedbackBuffers := feedbackBuffers s'\<rparr>"
    using setupSwapBuffers_frame [OF w] by simp
  have g: "gl s' = gl s4" "resources s' = resources s4" "feedbackMap s' = feedbackMap s4"
    using arg_cong [OF f5, of gl] arg_cong [OF f5, of resources]
      arg_cong [OF f5, of feedbackMap] by simp_all
  have m: "feedbackMap s4 = feedbackMap s3"
    using arg_cong [OF f4, of feedbackMap] by simp
  show ?thesis
    by (subst f5, subst f4, subst s3) (simp add: g m)
qed

lemma setupBuffers_crosses:
  assumes "setupBuffers p s = Inr s'"
      and "feedbackMap s' = Some fm"
      and "Some b \<noteq> targetTextureVarying s'"
  shows "(a, b) \<in> set fm \<Longrightarrow> distinct (map fst fm) \<Longrightarrow>
           get_value (sourceBuffers s' (next_index s')) a
             = get_value (feedbackBuffers s' (currentIndex s')) b"
    and "lastSource fm b = Some a' \<Longrightarrow>
           get_value (feedbackBuffers s' (next_index s')) b
             = get_value (sourceBuffers s' (currentIndex s')) a'"
proof -
  obtain s3 s4 where w: "setupSwapBuffers s4 = Inr s'"
    using setupBuffers_steps [OF assms(1)] by blast
  note fr = setupSwapBuffers_frame [OF w]
  have eq: "s' = s4\<lparr>sourceBuffers := sourceBuffers s', feedbackBuffers := feedbackBuffers s'\<rparr>"
    using fr by simp
  have ci: "currentIndex s' = currentIndex s4"
    using arg_cong [OF eq, of currentIndex] by simp
  have fm: "feedbackMap s4 = Some fm"
    using arg_cong [OF eq, of feedbackMap] assms(2) by simp
  have ttv: "Some b \<noteq> targetTextureVarying s4"
    using arg_cong [OF eq, of targetTextureVarying] assms(3) by simp
  show "get_value (sourceBuffers s' (next_index s')) a
             = get_value (feedbackBuffers s' (currentIndex s')) b"
    if "(a, b) \<in> set fm" "distinct (map fst fm)"
    using setupSwapBuffers_crosses(1) [OF w fm ttv that] fr ci
    by (simp add: next_index_def)
  show "get_value (feedbackBuffers s' (next_index s')) b
             = get_value (sourceBuffers s' (currentIndex s')) a'"
    if "lastSource fm b = Some a'"
    using setupSwapBuffers_crosses(2) [OF w fm ttv that] fr ci
    by (simp add: next_index_def)
qed

text \<open>What the remaining configuration steps leave unchanged.\<close>

lemma updateElementIDBuffer_frame:
  "updateElementIDBuffer n s =
     s\<lparr>gl := gl (updateElementIDBuffer n s),
       resources := resources (updateElementIDBuffer n s),
       elementIDBuffer := elementIDBuffer (updateElementIDBuffer n s)\<rparr>"
  by (cases "elementIDBuffer s") (simp_all add: updateElementIDBuffer_def createNewBuffer_eq)

lemma setElementCount_frame:
  assumes "setElementCount p s = Inr s'"
  shows "s' = s\<lparr>gl := gl s', resources := resources s', elementIDBuffer := elementIDBuffer s',
                vertexCount := vertexCount s', elementCount := elementCount s'\<rparr>"
proof (cases "props_elementCount p")
  case None
  with assms show ?thesis by (simp add: setElementCount_def)
next
  case (Some c)
  show ?thesis
  proof (cases c)
    case NotFinite
    with assms Some show ?thesis by (simp add: setElementCount_def)
  next
    case (Finite n)
    show ?thesis
    proof (cases "elementCount s = n")
      case True
      with assms Some Finite show ?thesis by (simp add: setElementCount_def)
    next
      case False
      show ?thesis
      proof (cases "elementCount s < n")
        case True
        have "s' = (updateElementIDBuffer n s)\<lparr>vertexCount := Some n, elementCount := n\<rparr>"
          using assms Some Finite False True by (simp add: setElementCount_def)
        then show ?thesis
          by (subst (asm) updateElementIDBuffer_frame) simp
      next
        case lower: False
        have "s' = s\<lparr>vertexCount := Some n, elementCount := n\<rparr>"
          using assms Some Finite False lower by (simp add: setElementCount_def)
        then show ?thesis by simp
      qed
    qed
  qed
qed

lemma setupTransformFeedback_frame:
  "setupTransformFeedback s =
     s\<lparr>transformFeedbacks := transformFeedbacks (setupTransformFeedback s)\<rparr>"
  by (simp add: setupTransformFeedback_def Let_def)

lemma buildTargetTexture_frame:
  assumes "buildTargetTexture t index s = Inr (h, s')"
  shows "s' = s\<lparr>gl := gl s', resources := resources s', targetRefTexName := targetRefTexName s'\<rparr>"
proof (cases t)
  case (TargetTexture h0)
  with assms show ?thesis by (auto simp: buildTargetTexture_def)
next
  case (TargetRef name)
  with assms show ?thesis
    by (auto simp: buildTargetTexture_def Let_def cloneTextureFrom_def split: option.splits)
qed

lemma setupSwapTextures_frame:
  "setupSwapTextures s =
     s\<lparr>sourceTextures := sourceTextures (setupSwapTextures s),
       targetTextures := targetTextures (setupSwapTextures s)\<rparr>"
  by (simp add: setupSwapTextures_def Let_def split: option.splits)

lemma setupFramebuffers_frame:
  assumes "setupFramebuffers s = Inr s'"
  shows "s' = s\<lparr>framebuffers := framebuffers s'\<rparr>"
  using assms
  by (auto simp: setupFramebuffers_def Let_def split: if_splits sum.splits)

text \<open>The steps of a successful \<open>setupTextures\<close>.\<close>

lemma setupTextures_steps:
  assumes "setupTextures p s = Inr s'"
  shows "\<exists>s3 targ.
           deduceTargetTexture p (assignSourceTextures p (storeSwapTexture p s)) = Inr targ \<and>
           storeTargetTexture targ (assignSourceTextures p (storeSwapTexture p s)) = Inr s3 \<and>
           ((\<not> truthy_target targ \<and> s' = setupSwapTextures s3) \<or>
            (truthy_target targ \<and> setupFramebuffers (setupSwapTextures s3) = Inr s'))"
  using assms unfolding setupTextures_def Let_def
  by (auto split: if_splits sum.splits)

lemma storeSwapTexture_frame:
  "storeSwapTexture p s = s\<lparr>swapTexture := swapTexture (storeSwapTexture p s)\<rparr>"
  by (simp add: storeSwapTexture_def)

lemma assignSourceTextures_frame:
  "assignSourceTextures p s =
     s\<lparr>sourceTextures := sourceTextures (assignSourceTextures p s),
       hasSourceTextures := hasSourceTextures (assignSourceTextures p s)\<rparr>"
  by (simp add: assignSourceTextures_def Let_def)

lemma storeTargetTexture_frame:
  assumes "storeTargetTexture targ s = Inr s'"
  shows "s' = s\<lparr>gl := gl s', resources := resources s',
                targetRefTexName := targetRefTexName s', targetTextures := targetTextures s'\<rparr>"
proof (cases "truthy (targetTextureVarying s) \<and> truthy_target targ")
  case False
  with assms show ?thesis by (auto simp: storeTargetTexture_def)
next
  case True
  show ?thesis
  proof (cases targ)
    case None
    with assms True show ?thesis by (simp add: storeTargetTexture_def)
  next
    case (Some tt)
    obtain h s1 where b: "buildTargetTexture tt (currentIndex s) s = Inr (h, s1)"
      and e: "s' = s1\<lparr>targetTextures := (targetTextures s1)(currentIndex s := Some h)\<rparr>"
      using assms True Some by (auto simp: storeTargetTexture_def split: sum.splits)
    show ?thesis
      by (subst e, subst buildTargetTexture_frame [OF b]) (simp add: e)
  qed
qed

lemma setupTextures_frame:
  assumes "setupTextures p s = Inr s'"
  shows "s' = s\<lparr>gl := gl s', sourceTextures := sourceTextures s',
                targetTextures := targetTextures s', framebuffers := framebuffers s',
                resources := resources s', targetRefTexName := targetRefTexName s',
                swapTexture := swapTexture s', hasSourceTextures := hasSourceTextures s'\<rparr>"
proof -
  define s1 where "s1 = storeSwapTexture p s"
  define s2 where "s2 = assignSourceTextures p s1"
  obtain s3 targ where
    c: "storeTargetTexture targ s2 = Inr s3"
    and d: "(\<not> truthy_target targ \<and> s' = setupSwapTextures s3) \<or>
            (truthy_target targ \<and> setupFramebuffers (setupSwapTextures s3) = Inr s')"
    using setupTextures_steps [OF assms] unfolding s1_def s2_def by blast
  define s4 where "s4 = setupSwapTextures s3"
  have f1: "s1 = s\<lparr>swapTexture := swapTexture s1\<rparr>"
    unfolding s1_def by (rule storeSwapTexture_frame)
  have f2: "s2 = s1\<lparr>sourceTextures := sourceTextures s2, hasSourceTextures := hasSourceTextures s2\<rparr>"
    unfolding s2_def by (rule assignSourceTextures_frame)
  note f3 = storeTargetTexture_frame [OF c]
  have f4: "s4 = s3\<lparr>sourceTextures := sourceTextures s4, targetTextures := targetTextures s4\<rparr>"
    unfolding s4_def by (rule setupSwapTextures_frame)
  have f5: "s' = s4\<lparr>framebuffers := framebuffers s'\<rparr>"
    using d setupFramebuffers_frame [of s4 s'] by (auto simp: s4_def)
  have g5: "gl s' = gl s4" "sourceTextures s' = sourceTextures s4"
    "targetTextures s' = targetTextures s4" "resources s' = resources s4"
    "targetRefTexName s' = targetRefTexName s4" "swapTexture s' = swapTexture s4"
    "hasSourceTextures s' = hasSourceTextures s4"
    using arg_cong [OF f5, of gl] arg_cong [OF f5, of sourceTextures]
      arg_cong [OF f5, of targetTextures] arg_cong [OF f5, of resources]
      arg_cong [OF f5, of targetRefTexName] arg_cong [OF f5, of swapTexture]
      arg_cong [OF f5, of hasSourceTextures] by simp_all
  have g4: "gl s4 = gl s3" "resources s4 = resources s3"
    "targetRefTexName s4 = targetRefTexName s3" "swapTexture s4 = swapTexture s3"
    "hasSourceTextures s4 = hasSourceTextures s3"
    using arg_cong [OF f4, of gl] arg_cong [OF f4, of resources]
      arg_cong [OF f4, of targetRefTexName] arg_cong [OF f4, of swapTexture]
      arg_cong [OF f4, of hasSourceTextures] by simp_all
  have g3: "swapTexture s3 = swapTexture s2" "hasSourceTextures s3 = hasSourceTextures s2"
    using arg_cong [OF f3, of swapTexture] arg_cong [OF f3, of hasSourceTextures] by simp_all
  have g2: "swapTexture s2 = swapTexture s1"
    using arg_cong [OF f2, of swapTexture] by simp
  show ?thesis
    by (subst f5, subst f4, subst f3, subst f2, subst f1) (simp add: g5 g4 g3 g2)
qed

text \<open>The steps of a successful \<open>update\<close> and of a successful construction.\<close>

lemma update_transform_steps:
  assumes "update_transform p s = Inr s'"
  shows "\<exists>s1 s2. setElementCount p s = Inr s1 \<and> setupBuffers p s1 = Inr s2 \<and>
                 setupTextures p (setupTransformFeedback s2) = Inr s'"
  using assms unfolding update_transform_def by (auto split: sum.splits)

lemma new_Transform_steps:
  assumes "new_Transform g p t = Inr s'"
  shows "\<exists>s3 s4 s5. setupBuffers p (storeVaryings p (initial_transform g)) = Inr s3 \<and>
                    setupTextures p s3 = Inr s4 \<and>
                    buildModel p t s4 = Inr s5 \<and> s' = s5\<lparr>sealed := True\<rparr>"
  using assms unfolding new_Transform_def initialize_def
  by (auto split: sum.splits if_splits)

lemma buildModel_frame:
  assumes "buildModel p t s = Inr s'"
  shows "s' = s\<lparr>gl := gl s', resources := resources s', elementIDBuffer := elementIDBuffer s',
                vertexCount := vertexCount s', elementCount := elementCount s',
                targetTextureType := targetTextureType s',
                transformFeedbacks := transformFeedbacks s'\<rparr>"
proof -
  define s1 where "s1 = s\<lparr>targetTextureType := t,
                vertexCount := (case props_elementCount p of
                                  Some (Finite n) \<Rightarrow> Some n
                                | _ \<Rightarrow> None)\<rparr>"
  define s2 where "s2 = setupTransformFeedback s1"
  have r: "setElementCount p s2 = Inr s'"
    using assms by (simp add: buildModel_def Let_def s1_def s2_def)
  note f3 = setElementCount_frame [OF r]
  have f2: "s2 = s1\<lparr>transformFeedbacks := transformFeedbacks s2\<rparr>"
    unfolding s2_def by (rule setupTransformFeedback_frame)
  have f1: "s1 = s\<lparr>targetTextureType := targetTextureType s1, vertexCount := vertexCount s1\<rparr>"
    by (simp add: s1_def)
  have g3: "transformFeedbacks s' = transformFeedbacks s2" "targetTextureType s' = targetTextureType s2"
    using arg_cong [OF f3, of transformFeedbacks] arg_cong [OF f3, of targetTextureType] by simp_all
  have g2: "targetTextureType s2 = targetTextureType s1"
    using arg_cong [OF f2, of targetTextureType] by simp
  show ?thesis
    by (subst f3, subst f2, subst f1) (simp add: g3 g2)
qed

text \<open>Unfolding every definition evaluates the model on a concrete configuration.\<close>

lemmas evaluation =
  new_Transform_def initialize_def storeVaryings_def initial_transform_def
  setupBuffers_def deduceBufferProps_def deducedFeedbackBuffers_def deducedFeedbackMap_def
  createFeedbackBuffers_def createFeedbackBuffer_def
  needsFeedbackBuffer_def source_opts_def createNewBuffer_def new_Buffer_def make_buffer_def
  delete_resource_def setupSwapBuffers_def crossBuffers_def next_index_def assign_def
  set_prop_def get_prop_def get_value_def truthy_def instanceofBuffer_def
  setupTextures_def storeSwapTexture_def assignSourceTextures_def storeTargetTexture_def
  deduceTargetTexture_def truthy_target_def setupSwapTextures_def texture_values_def
  buildTargetTexture_def cloneTextureFrom_def target_texture_name_def
  setupFramebuffers_def setupFramebuffer_def new_Framebuffer_def framebuffer_update_def
  framebuffer_resize_def buildModel_def setupTransformFeedback_def setElementCount_def
  updateElementIDBuffer_def buffer_setData_def new_TransformFeedback_def
  transformFeedback_setBuffers_def update_transform_def no_props_def
  example_gl_def example_buffer_def example_texture_def
  GL_STATIC_DRAW_def GL_NEAREST_def GL_CLAMP_TO_EDGE_def

lemma configuration_buffers:
  assumes "update_transform p s = Inr s' \<or> new_Transform g p t = Inr s'"
  shows "\<exists>s1 s2. setupBuffers p s1 = Inr s2 \<and>
           sourceBuffers s' = sourceBuffers s2 \<and> feedbackBuffers s' = feedbackBuffers s2 \<and>
           currentIndex s' = currentIndex s2 \<and> feedbackMap s' = feedbackMap s2 \<and>
           targetTextureVarying s' = targetTextureVarying s2"
  using assms
proof
  assume "update_transform p s = Inr s'"
  then obtain s1 s2 where b: "setupBuffers p s1 = Inr s2"
    and x: "setupTextures p (setupTransformFeedback s2) = Inr s'"
    using update_transform_steps by blast
  define s3 where "s3 = setupTransformFeedback s2"
  have f3: "s3 = s2\<lparr>transformFeedbacks := transformFeedbacks s3\<rparr>"
    unfolding s3_def by (rule setupTransformFeedback_frame)
  note f4 = setupTextures_frame [OF x [folded s3_def]]
  have "sourceBuffers s' = sourceBuffers s2" "feedbackBuffers s' = feedbackBuffers s2"
    "currentIndex s' = currentIndex s2" "feedbackMap s' = feedbackMap s2"
    "targetTextureVarying s' = targetTextureVarying s2"
    using arg_cong [OF f4, of sourceBuffers] arg_cong [OF f3, of sourceBuffers]
      arg_cong [OF f4, of feedbackBuffers] arg_cong [OF f3, of feedbackBuffers]
      arg_cong [OF f4, of currentIndex] arg_cong [OF f3, of currentIndex]
      arg_cong [OF f4, of feedbackMap] arg_cong [OF f3, of feedbackMap]
      arg_cong [OF f4, of targetTextureVarying] arg_cong [OF f3, of targetTextureVarying]
    by simp_all
  with b show ?thesis by blast
next
  assume "new_Transform g p t = Inr s'"
  then obtain s3 s4 s5 where b: "setupBuffers p (storeVaryings p (initial_transform g)) = Inr s3"
    and x: "setupTextures p s3 = Inr s4" and m: "buildModel p t s4 = Inr s5"
    and e: "s' = s5\<lparr>sealed := True\<rparr>"
    using new_Transform_steps by blast
  note f4 = setupTextures_frame [OF x]
  note f5 = buildModel_frame [OF m]
  have "sourceBuffers s' = sourceBuffers s3" "feedbackBuffers s' = feedbackBuffers s3"
    "currentIndex s' = currentIndex s3" "feedbackMap s' = feedbackMap s3"
    "targetTextureVarying s' = targetTextureVarying s3"
    using arg_cong [OF f4, of sourceBuffers] arg_cong [OF f5, of sourceBuffers]
      arg_cong [OF f4, of feedbackBuffers] arg_cong [OF f5, of feedbackBuffers]
      arg_cong [OF f4, of currentIndex] arg_cong [OF f5, of currentIndex]
      arg_cong [OF f4, of feedbackMap] arg_cong [OF f5, of feedbackMap]
      arg_cong [OF f4, of targetTextureVarying] arg_cong [OF f5, of targetTextureVarying]
    by (simp_all add: e)
  with b show ?thesis by blast
qed

lemma crossing_succeeds:
  "new_Transform example_gl crossing_props None = Inr crossing_state"
proof -
  have "\<not> isl (new_Transform example_gl crossing_props None)"
    by (simp add: crossing_props_def evaluation)
  then show ?thesis
    unfolding crossing_state_def by simp
qed

lemma shared_destination_values:
  "new_Transform example_gl shared_destination_props None = Inr shared_destination_state"
  "feedbackMap shared_destination_state = Some [(''a'', ''c''), (''b'', ''c'')]"
  "targetTextureVarying shared_destination_state = None"
  "currentIndex shared_destination_state = 0"
  "next_index shared_destination_state = 1"
  "get_value (sourceBuffers shared_destination_state 0) ''a'' = Some (IsBuffer 0)"
  "get_value (sourceBuffers shared_destination_state 0) ''b'' = Some (IsBuffer 1)"
  "get_value (feedbackBuffers shared_destination_state 0) ''c'' = Some (IsBuffer 3)"
  "get_value (sourceBuffers shared_destination_state 1) ''a'' = Some (IsBuffer 3)"
  "get_value (feedbackBuffers shared_destination_state 1) ''c'' = Some (IsBuffer 1)"
proof -
  have "\<not> isl (new_Transform example_gl shared_destination_props None)"
    by (simp add: shared_destination_props_def evaluation)
  then show "new_Transform example_gl shared_destination_props None
                   = Inr shared_destination_state"
    unfolding shared_destination_state_def by simp
  show "feedbackMap shared_destination_state = Some [(''a'', ''c''), (''b'', ''c'')]"
    "targetTextureVarying shared_destination_state = None"
    "currentIndex shared_destination_state = 0"
    "next_index shared_destination_state = 1"
    "get_value (sourceBuffers shared_destination_state 0) ''a'' = Some (IsBuffer 0)"
    "get_value (sourceBuffers shared_destination_state 0) ''b'' = Some (IsBuffer 1)"
    "get_value (feedbackBuffers shared_destination_state 0) ''c'' = Some (IsBuffer 3)"
    "get_value (sourceBuffers shared_destination_state 1) ''a'' = Some (IsBuffer 3)"
    "get_value (feedbackBuffers shared_destination_state 1) ''c'' = Some (IsBuffer 1)"
    by (simp_all add: shared_destination_state_def shared_destination_props_def evaluation)
qed



text \<open>Running the kernel changes sampling parameters of textures in the context only.\<close>

lemma setSourceTextureParameters_loop_frame:
  "setSourceTextureParameters_loop ts s = Inr s' \<Longrightarrow> s' = s\<lparr>gl := gl s'\<rparr>"
proof (induction ts arbitrary: s)
  case Nil
  then show ?case by simp
next
  case (Cons x rest)
  obtain name v where x: "x = (name, v)" by (cases x)
  then obtain h where v: "v = Some h"
    and body: "setSourceTextureParameters_loop rest (s\<lparr>gl := texture_setParameters h (gl s)\<rparr>)
                 = Inr s'"
    using Cons.prems by (auto split: option.splits)
  show ?case
    using Cons.IH [OF body] by simp
qed

lemma getInputs_frame:
  assumes "getInputs s = Inr (attributes, s')"
  shows "s' = s\<lparr>gl := gl s'\<rparr>"
proof (cases "hasSourceTextures s \<or> truthy (targetTextureVarying s)")
  case False
  with assms show ?thesis by (auto simp: getInputs_def Let_def)
next
  case True
  then have "setSourceTextureParameters_loop (sourceTextures s (currentIndex s)) s = Inr s'"
    using assms
    by (auto simp: getInputs_def Let_def setSourceTextureParameters_def split: sum.splits)
  then show ?thesis by (rule setSourceTextureParameters_loop_frame)
qed

lemma run_frame:
  assumes "run opts s = Inr (cmds, s')"
  shows "s' = s\<lparr>gl := gl s'\<rparr>"
proof -
  obtain attributes s1 where i: "getInputs s = Inr (attributes, s1)"
    using assms by (auto simp: run_def split: sum.splits)
  have "s' = s1"
    using assms i by (auto simp: run_def Let_def split: if_splits option.splits)
  with getInputs_frame [OF i] show ?thesis by simp
qed













lemma texture_state_values:
  "swapTexture texture_state = Some ''tex''"
  "targetTextureVarying texture_state = Some ''outTex''"
  "renderingToTexture texture_state"
  "currentIndex texture_state = 0"
  "sourceTextures texture_state 0 = [(''tex'', Some 0)]"
  "sourceTextures texture_state 1 = [(''tex'', Some 2)]"
  "targetTextures texture_state 0 = Some 2"
  "targetTextures texture_state 1 = Some 0"
  "framebuffers texture_state 0 = Some \<lparr>fb_width = 2, fb_height = 1, color_attachment0 = 2\<rparr>"
  "framebuffers texture_state 1 = Some \<lparr>fb_width = 2, fb_height = 1, color_attachment0 = 0\<rparr>"
  "hasSourceTextures texture_state"
  "elementIDBuffer texture_state = Some 2"
  "elementCount texture_state = 2"
  "feedbackMap texture_state = None"
  by (simp_all add: texture_state_def texture_props_def evaluation elementIds_def fround_def)



























lemma crossing_state_values:
  "feedbackMap crossing_state = Some [(''a'', ''b'')]"
  "targetTextureVarying crossing_state = None"
  "currentIndex crossing_state = 0"
  "sourceBuffers crossing_state 0 = [(''a'', Some (IsBuffer 0))]"
  "feedbackBuffers crossing_state 0 = [(''b'', Some (IsBuffer 2))]"
  "gl_nextBuffer (gl crossing_state) = 3"
  "buffer_shape (gl_buffers (gl crossing_state) 0) = (16, 35044, \<lparr>acc_size = 1, acc_stride = 0\<rparr>)"
  by (simp_all add: crossing_state_def crossing_props_def evaluation buffer_shape_def)

text \<open>Indices up to \<open>2 ^ 24\<close> are stored exactly in 32-bit floats.\<close>

lemma excess_bits_small: "n < 2 ^ 24 \<Longrightarrow> excess_bits n = 0"
  by (subst excess_bits.simps) simp

lemma excess_bits_one: "2 ^ 24 \<le> n \<Longrightarrow> n < 2 ^ 25 \<Longrightarrow> excess_bits n = 1"
proof -
  assume a: "2 ^ 24 \<le> n" "n < 2 ^ 25"
  then have "n div 2 < 2 ^ 24" by simp
  then have "excess_bits (n div 2) = 0" by (rule excess_bits_small)
  then show ?thesis
    using a by (subst excess_bits.simps) simp
qed

lemma fround_exact: "n \<le> 2 ^ 24 \<Longrightarrow> fround n = n"
proof (cases "n < 2 ^ 24")
  case True
  then show ?thesis by (simp add: fround_def excess_bits_small)
next
  case False
  assume "n \<le> 2 ^ 24"
  with False have n: "n = 2 ^ 24" by simp
  have "excess_bits n = 1" using n by (intro excess_bits_one) simp_all
  then show ?thesis by (simp add: fround_def n Let_def)
qed




lemma elementIds_exact:
  assumes "n \<le> 16777217"
  shows "elementIds n = map real [0..<n]"
proof -
  have "fround i = i" if "i \<in> set [0..<n]" for i
    using that assms by (intro fround_exact) simp
  then show ?thesis
    by (simp add: elementIds_def)
qed










text \<open>The packing loops, position by position.\<close>

lemma pack_inner:
  "\<exists>Q. fold (pack_channel pixels i) [0..<c] (P, n) = (Q, n + c) \<and> length Q = length P \<and>
       (\<forall>q < length P. Q ! q = (if n \<le> q \<and> q < n + c then pixels ! (i + (q - n)) else P ! q))"
proof (induction c)
  case 0
  then show ?case by simp
next
  case (Suc c)
  then obtain Q where Q: "fold (pack_channel pixels i) [0..<c] (P, n) = (Q, n + c)"
    "length Q = length P"
    "\<forall>q < length P. Q ! q = (if n \<le> q \<and> q < n + c then pixels ! (i + (q - n)) else P ! q)"
    by blast
  have step: "fold (pack_channel pixels i) [0..<Suc c] (P, n)
                = (Q[n + c := pixels ! (i + c)], n + Suc c)"
    using Q(1) by (simp add: pack_channel_def)
  have "(Q[n + c := pixels ! (i + c)]) ! q
          = (if n \<le> q \<and> q < n + Suc c then pixels ! (i + (q - n)) else P ! q)"
    if "q < length P" for q
  proof (cases "q = n + c")
    case True
    then show ?thesis using that Q(2) by simp
  next
    case False
    then show ?thesis using that Q(2,3) by (auto simp: nth_list_update)
  qed
  then show ?case
    using step Q(2) by (intro exI [of _ "Q[n + c := pixels ! (i + c)]"]) simp
qed

lemma pack_outer:
  "\<exists>Q. fold (\<lambda>i acc. fold (pack_channel pixels i) [0..<c] acc)
          (map (\<lambda>k. 4 * k) [0..<m]) (P, 0) = (Q, m * c) \<and>
       length Q = length P \<and>
       (\<forall>k j. k < m \<and> j < c \<and> k * c + j < length P \<longrightarrow> Q ! (k * c + j) = pixels ! (4 * k + j)) \<and>
       (\<forall>q < length P. m * c \<le> q \<longrightarrow> Q ! q = P ! q)"
proof (induction m)
  case 0
  then show ?case by simp
next
  case (Suc m)
  then obtain Q where Q: "fold (\<lambda>i acc. fold (pack_channel pixels i) [0..<c] acc)
          (map (\<lambda>k. 4 * k) [0..<m]) (P, 0) = (Q, m * c)"
    "length Q = length P"
    "\<forall>k j. k < m \<and> j < c \<and> k * c + j < length P \<longrightarrow> Q ! (k * c + j) = pixels ! (4 * k + j)"
    "\<forall>q < length P. m * c \<le> q \<longrightarrow> Q ! q = P ! q"
    by blast
  obtain R where R: "fold (pack_channel pixels (4 * m)) [0..<c] (Q, m * c) = (R, m * c + c)"
    "length R = length Q"
    "\<forall>q < length Q. R ! q = (if m * c \<le> q \<and> q < m * c + c
                                then pixels ! (4 * m + (q - m * c)) else Q ! q)"
    using pack_inner [of pixels "4 * m" c Q "m * c"] by blast
  have step: "fold (\<lambda>i acc. fold (pack_channel pixels i) [0..<c] acc)
          (map (\<lambda>k. 4 * k) [0..<Suc m]) (P, 0) = (R, Suc m * c)"
    using Q(1) R(1) by (simp add: add.commute)
  have new: "R ! (k * c + j) = pixels ! (4 * k + j)"
    if "k < Suc m" "j < c" "k * c + j < length P" for k j
  proof (cases "k = m")
    case True
    then show ?thesis using that R(3) Q(2) by simp
  next
    case False
    then have km: "k < m" using that(1) by simp
    then have "Suc k \<le> m" by simp
    then have "Suc k * c \<le> m * c" by (rule mult_le_mono1)
    then have "k * c + j < m * c" using that(2) by simp
    then have "R ! (k * c + j) = Q ! (k * c + j)"
      using R(3) Q(2) that(3) by simp
    then show ?thesis using Q(3) km that(2,3) by simp
  qed
  have old: "R ! q = P ! q" if "q < length P" "Suc m * c \<le> q" for q
    using that R(3) Q(2,4) by simp
  show ?case
    using step R(2) Q(2) new old by (intro exI [of _ R]) simp
qed

lemma packPixels_packs:
  assumes "length pixels = 4 * m"
  shows "length (packPixels pixels c) = m * c"
    and "k < m \<Longrightarrow> j < c \<Longrightarrow> packPixels pixels c ! (k * c + j) = pixels ! (4 * k + j)"
proof -
  have len: "(length pixels + 3) div 4 = m" "(length pixels * c) div 4 = m * c"
    using assms by simp_all
  obtain Q where Q: "fold (\<lambda>i acc. fold (pack_channel pixels i) [0..<c] acc)
          (map (\<lambda>k. 4 * k) [0..<m]) (replicate (m * c) 0, 0) = (Q, m * c)"
    "length Q = length (replicate (m * c) (0::real))"
    "\<forall>k j. k < m \<and> j < c \<and> k * c + j < length (replicate (m * c) (0::real))
        \<longrightarrow> Q ! (k * c + j) = pixels ! (4 * k + j)"
    using pack_outer [of pixels c m "replicate (m * c) 0"] by blast
  have p: "packPixels pixels c = Q"
    using Q(1) by (simp add: packPixels_def len)
  show "length (packPixels pixels c) = m * c"
    using Q(2) p by simp
  show "packPixels pixels c ! (k * c + j) = pixels ! (4 * k + j)" if "k < m" "j < c"
  proof -
    have "Suc k \<le> m" using that(1) by simp
    then have "Suc k * c \<le> m * c" by (rule mult_le_mono1)
    then have "k * c + j < m * c" using that(2) by simp
    then show ?thesis using Q(3) p that by simp
  qed
qed

lemma readPixelsToArray_length:
  "length (readPixelsToArray g fb) = 4 * length (texels (gl_textures g (color_attachment0 fb)))"
proof -
  have "length (concat (map (\<lambda>(r, g, b, a). [r, g, b, a]) ts)) = 4 * length ts"
    for ts :: "(real \<times> real \<times> real \<times> real) list"
    by (induction ts) (auto split: prod.splits)
  then show ?thesis by (simp add: readPixelsToArray_def)
qed

text \<open>The example that is read back.\<close>

lemma readback_state_succeeds:
  "new_Transform example_gl readback_props (Some VEC2) = Inr readback_state"
proof -
  have "\<not> isl (new_Transform example_gl readback_props (Some VEC2))"
    by (simp add: readback_props_def evaluation elementIds_exact)
  then show ?thesis
    unfolding readback_state_def by simp
qed

lemma readback_state_values:
  "currentIndex readback_state = 0"
  "targetTextureVarying readback_state = Some ''outTex''"
  "renderingToTexture readback_state"
  "feedbackBuffers readback_state 0 = [(''b'', Some (HasBuffer 1))]"
  "framebuffers readback_state 0 = Some \<lparr>fb_width = 2, fb_height = 1, color_attachment0 = 1\<rparr>"
  "targetTextureType readback_state = Some VEC2"
  "gl_buffers (gl readback_state) 1 = example_buffer"
  "gl_textures (gl readback_state) 1 = example_texture"
  by (simp_all add: readback_state_def readback_props_def evaluation elementIds_exact
      del: One_nat_def)

text \<open>Deleting a resource.\<close>

lemma delete_resource_deleted: "resource_deleted r (delete_resource r g)"
  by (cases r) (simp_all add: resource_deleted_def delete_resource_def)

text \<open>Without a texture output there is no render target.\<close>

lemma setupFramebuffers_unrouted:
  "\<not> renderingToTexture s \<Longrightarrow> setupFramebuffers s = Inr s"
  by (simp add: setupFramebuffers_def)

lemma setupTextures_unrouted:
  assumes "setupTextures p s = Inr s'" and "\<not> renderingToTexture s"
  shows "framebuffers s' = framebuffers s"
proof -
  define s1 where "s1 = storeSwapTexture p s"
  define s2 where "s2 = assignSourceTextures p s1"
  obtain s3 targ where
    c: "storeTargetTexture targ s2 = Inr s3"
    and d: "(\<not> truthy_target targ \<and> s' = setupSwapTextures s3) \<or>
            (truthy_target targ \<and> setupFramebuffers (setupSwapTextures s3) = Inr s')"
    using setupTextures_steps [OF assms(1)] unfolding s1_def s2_def by blast
  define s4 where "s4 = setupSwapTextures s3"
  have f1: "s1 = s\<lparr>swapTexture := swapTexture s1\<rparr>"
    unfolding s1_def by (rule storeSwapTexture_frame)
  have f2: "s2 = s1\<lparr>sourceTextures := sourceTextures s2, hasSourceTextures := hasSourceTextures s2\<rparr>"
    unfolding s2_def by (rule assignSourceTextures_frame)
  note f3 = storeTargetTexture_frame [OF c]
  have f4: "s4 = s3\<lparr>sourceTextures := sourceTextures s4, targetTextures := targetTextures s4\<rparr>"
    unfolding s4_def by (rule setupSwapTextures_frame)
  have r: "renderingToTexture s4 = renderingToTexture s" "framebuffers s4 = framebuffers s"
    using arg_cong [OF f4, of renderingToTexture] arg_cong [OF f3, of renderingToTexture]
      arg_cong [OF f2, of renderingToTexture] arg_cong [OF f1, of renderingToTexture]
      arg_cong [OF f4, of framebuffers] arg_cong [OF f3, of framebuffers]
      arg_cong [OF f2, of framebuffers] arg_cong [OF f1, of framebuffers]
    by simp_all
  have "s' = s4"
    using d setupFramebuffers_unrouted [of s4] r assms(2) by (auto simp: s4_def)
  then show ?thesis using r by simp
qed

lemma reachable_unrouted:
  "reachable s \<Longrightarrow> \<not> renderingToTexture s \<Longrightarrow> framebuffers s i = None"
proof (induction arbitrary: i rule: reachable.induct)
  case (constructed g p t s)
  obtain s3 s4 s5 where b: "setupBuffers p (storeVaryings p (initial_transform g)) = Inr s3"
    and x: "setupTextures p s3 = Inr s4" and m: "buildModel p t s4 = Inr s5"
    and e: "s = s5\<lparr>sealed := True\<rparr>"
    using new_Transform_steps [OF constructed(1)] by blast
  note f3 = setupBuffers_frame [OF b]
  note f4 = setupTextures_frame [OF x]
  note f5 = buildModel_frame [OF m]
  have r: "renderingToTexture s3 = renderingToTexture s"
    using arg_cong [OF f4, of renderingToTexture] arg_cong [OF f5, of renderingToTexture]
    by (simp add: e)
  have "framebuffers s3 = (\<lambda>i. None)"
    using arg_cong [OF f3, of framebuffers]
    by (simp add: storeVaryings_def Let_def initial_transform_def)
  then have "framebuffers s4 = (\<lambda>i. None)"
    using setupTextures_unrouted [OF x] r constructed(2) by simp
  then show ?case
    using arg_cong [OF f5, of framebuffers] by (simp add: e)
next
  case (updated s p s')
  obtain s1 s2 where c: "setElementCount p s = Inr s1" and b: "setupBuffers p s1 = Inr s2"
    and x: "setupTextures p (setupTransformFeedback s2) = Inr s'"
    using update_transform_steps [OF updated(2)] by blast
  define s3 where "s3 = setupTransformFeedback s2"
  have f3: "s3 = s2\<lparr>transformFeedbacks := transformFeedbacks s3\<rparr>"
    unfolding s3_def by (rule setupTransformFeedback_frame)
  note f1 = setElementCount_frame [OF c]
  note f2 = setupBuffers_frame [OF b]
  note f4 = setupTextures_frame [OF x [folded s3_def]]
  have r: "renderingToTexture s3 = renderingToTexture s" "framebuffers s3 = framebuffers s"
    "renderingToTexture s' = renderingToTexture s3"
    using arg_cong [OF f3, of renderingToTexture] arg_cong [OF f2, of renderingToTexture]
      arg_cong [OF f1, of renderingToTexture] arg_cong [OF f4, of renderingToTexture]
      arg_cong [OF f3, of framebuffers] arg_cong [OF f2, of framebuffers]
      arg_cong [OF f1, of framebuffers]
    by simp_all
  have "framebuffers s' = framebuffers s"
    using setupTextures_unrouted [OF x [folded s3_def]] r updated(4) by simp
  then show ?case
    using updated(3) [of i] updated(4) r by simp
next
  case (swapped s s')
  then show ?case by (auto simp: swap_def split: if_splits)
next
  case (ran s opts cmds s')
  note f = run_frame [OF ran(2)]
  show ?case
    using ran(3) [of i] ran(4) arg_cong [OF f, of framebuffers]
      arg_cong [OF f, of renderingToTexture] by simp
next
  case (context_changed s g)
  then show ?case by simp
qed

text \<open>The inputs of the example runs.\<close>

lemma texture_state_inputs:
  "getInputs texture_state
     = Inr ([(''transform_elementID'', Some (IsBuffer 2))],
            texture_state\<lparr>gl := texture_setParameters 0 (gl texture_state)\<rparr>)"
  "getInputs unattached_state
     = Inr ([(''transform_elementID'', Some (IsBuffer 2))],
            unattached_state\<lparr>gl := texture_setParameters 0 (gl unattached_state)\<rparr>)"
proof -
  have b: "sourceBuffers texture_state 0 = []"
    by (simp add: texture_state_def texture_props_def evaluation elementIds_exact)
  show "getInputs texture_state
     = Inr ([(''transform_elementID'', Some (IsBuffer 2))],
            texture_state\<lparr>gl := texture_setParameters 0 (gl texture_state)\<rparr>)"
    by (simp add: getInputs_def setSourceTextureParameters_def texture_state_values b
        assign_def set_prop_def Let_def)
  show "getInputs unattached_state
     = Inr ([(''transform_elementID'', Some (IsBuffer 2))],
            unattached_state\<lparr>gl := texture_setParameters 0 (gl unattached_state)\<rparr>)"
    by (simp add: getInputs_def setSourceTextureParameters_def texture_state_values b
        assign_def set_prop_def Let_def unattached_state_def)
qed

lemma crossing_state_inputs:
  "getInputs crossing_state = Inr ([(''a'', Some (IsBuffer 0))], crossing_state)"
  "\<not> renderingToTexture crossing_state"
  "transformFeedbacks crossing_state 0 = Some [(''b'', Some (IsBuffer 2))]"
  by (simp_all add: getInputs_def crossing_state_def crossing_props_def evaluation)

text \<open>
  The current-generation index of an instance that the constructor, \<open>update\<close>, \<open>swap\<close>
  and \<open>run\<close> can produce is 0 or 1.
\<close>

lemma reachable_index:
  "reachable s \<Longrightarrow> currentIndex s < 2"
proof (induction rule: reachable.induct)
  case (constructed g p t s)
  obtain s3 s4 s5 where b: "setupBuffers p (storeVaryings p (initial_transform g)) = Inr s3"
    and x: "setupTextures p s3 = Inr s4" and m: "buildModel p t s4 = Inr s5"
    and e: "s = s5\<lparr>sealed := True\<rparr>"
    using new_Transform_steps [OF constructed(1)] by blast
  have "currentIndex s = currentIndex (storeVaryings p (initial_transform g))"
    using arg_cong [OF setupBuffers_frame [OF b], of currentIndex]
      arg_cong [OF setupTextures_frame [OF x], of currentIndex]
      arg_cong [OF buildModel_frame [OF m], of currentIndex]
    by (simp add: e)
  then show ?case
    by (simp add: storeVaryings_def Let_def initial_transform_def)
next
  case (updated s p s')
  obtain s1 s2 where c: "setElementCount p s = Inr s1" and b: "setupBuffers p s1 = Inr s2"
    and x: "setupTextures p (setupTransformFeedback s2) = Inr s'"
    using update_transform_steps [OF updated(2)] by blast
  define s3 where "s3 = setupTransformFeedback s2"
  have f3: "s3 = s2\<lparr>transformFeedbacks := transformFeedbacks s3\<rparr>"
    unfolding s3_def by (rule setupTransformFeedback_frame)
  have "currentIndex s' = currentIndex s"
    using arg_cong [OF setElementCount_frame [OF c], of currentIndex]
      arg_cong [OF setupBuffers_frame [OF b], of currentIndex]
      arg_cong [OF f3, of currentIndex]
      arg_cong [OF setupTextures_frame [OF x [folded s3_def]], of currentIndex]
    by simp
  with updated(3) show ?case by simp
next
  case (swapped s s')
  then show ?case by (auto simp: swap_def split: if_splits)
next
  case (ran s opts cmds s')
  show ?case
    using ran(3) arg_cong [OF run_frame [OF ran(2)], of currentIndex] by simp
next
  case (context_changed s g)
  then show ?case by simp
qed









lemma reachable_rendering:
  "reachable s \<Longrightarrow> renderingToTexture s = truthy (targetTextureVarying s)"
proof (induction rule: reachable.induct)
  case (constructed g p t s)
  obtain s3 s4 s5 where b: "setupBuffers p (storeVaryings p (initial_transform g)) = Inr s3"
    and x: "setupTextures p s3 = Inr s4" and m: "buildModel p t s4 = Inr s5"
    and e: "s = s5\<lparr>sealed := True\<rparr>"
    using new_Transform_steps [OF constructed(1)] by blast
  note f3 = setupBuffers_frame [OF b]
  note f4 = setupTextures_frame [OF x]
  note f5 = buildModel_frame [OF m]
  have "renderingToTexture s = renderingToTexture (storeVaryings p (initial_transform g))"
    "targetTextureVarying s = targetTextureVarying (storeVaryings p (initial_transform g))"
    using arg_cong [OF f3, of renderingToTexture] arg_cong [OF f4, of renderingToTexture]
      arg_cong [OF f5, of renderingToTexture]
      arg_cong [OF f3, of targetTextureVarying] arg_cong [OF f4, of targetTextureVarying]
      arg_cong [OF f5, of targetTextureVarying]
    by (simp_all add: e)
  then show ?case
    by (simp add: storeVaryings_def Let_def initial_transform_def truthy_def)
next
  case (updated s p s')
  obtain s1 s2 where c: "setElementCount p s = Inr s1" and b: "setupBuffers p s1 = Inr s2"
    and x: "setupTextures p (setupTransformFeedback s2) = Inr s'"
    using update_transform_steps [OF updated(2)] by blast
  define s3 where "s3 = setupTransformFeedback s2"
  have f3: "s3 = s2\<lparr>transformFeedbacks := transformFeedbacks s3\<rparr>"
    unfolding s3_def by (rule setupTransformFeedback_frame)
  note f1 = setElementCount_frame [OF c]
  note f2 = setupBuffers_frame [OF b]
  note f4 = setupTextures_frame [OF x [folded s3_def]]
  have "renderingToTexture s' = renderingToTexture s"
    "targetTextureVarying s' = targetTextureVarying s"
    using arg_cong [OF f1, of renderingToTexture] arg_cong [OF f2, of renderingToTexture]
      arg_cong [OF f3, of renderingToTexture] arg_cong [OF f4, of renderingToTexture]
      arg_cong [OF f1, of targetTextureVarying] arg_cong [OF f2, of targetTextureVarying]
      arg_cong [OF f3, of targetTextureVarying] arg_cong [OF f4, of targetTextureVarying]
    by simp_all
  with updated(3) show ?case by simp
next
  case (swapped s s')
  then show ?case by (auto simp: swap_def split: if_splits)
next
  case (ran s opts cmds s')
  show ?case
    using ran(3) arg_cong [OF run_frame [OF ran(2)], of renderingToTexture]
      arg_cong [OF run_frame [OF ran(2)], of targetTextureVarying] by simp
next
  case (context_changed s g)
  then show ?case by simp
qed



















lemma undisturbed_reachable: "undisturbed s \<Longrightarrow> reachable s"
  by (induction rule: undisturbed.induct) (auto intro: reachable.intros)


section \<open>Swapping generations\<close>

text \<open>
  Claim C7. When a feedback map or a swap-texture name is configured, \<open>swap\<close> replaces
  the current-generation index \<open>c\<close> by \<open>(c + 1) mod 2\<close> and changes no other field. The
  index after one swap differs from the index before, and a second swap gives back the
  instance as it was, so the index returns to its original value. The index of an
  instance is 0 or 1 (lemma \<open>reachable_index\<close>).
\<close>

theorem swap_flips_index:
  assumes "feedbackMap s \<noteq> None \<or> truthy (swapTexture s)"
      and "currentIndex s < 2"
  shows "swap s = Inr (s\<lparr>currentIndex := (currentIndex s + 1) mod 2\<rparr>) \<and>
         (\<forall>s1. swap s = Inr s1 \<longrightarrow> currentIndex s1 \<noteq> currentIndex s \<and> swap s1 = Inr s)"
proof -
  have once: "swap s = Inr (s\<lparr>currentIndex := (currentIndex s + 1) mod 2\<rparr>)"
    using assms(1) by (simp add: swap_def)
  have returns: "(((currentIndex s + 1) mod 2) + 1) mod 2 = currentIndex s"
    using assms(2) by presburger
  have differs: "(currentIndex s + 1) mod 2 \<noteq> currentIndex s"
    by presburger
  have again: "swap (s\<lparr>currentIndex := (currentIndex s + 1) mod 2\<rparr>) = Inr s"
    using assms(1) returns by (simp add: swap_def)
  show ?thesis
    using once again differs by simp
qed

theorem swap_flips_index_witness:
  "feedbackMap swap_example \<noteq> None \<and>
   currentIndex swap_example < 2 \<and>
   swap swap_example = Inr (swap_example\<lparr>currentIndex := 1\<rparr>) \<and>
   swap (swap_example\<lparr>currentIndex := 1\<rparr>) = Inr swap_example"
proof -
  have h1: "feedbackMap swap_example \<noteq> None \<or> truthy (swapTexture swap_example)"
    by (simp add: swap_example_def)
  have h2: "currentIndex swap_example < 2"
    by (simp add: swap_example_def initial_transform_def)
  have c: "currentIndex swap_example = 0"
    by (simp add: swap_example_def initial_transform_def)
  have h0: "feedbackMap swap_example \<noteq> None"
    by (simp add: swap_example_def)
  show ?thesis
    using h0 h2 swap_flips_index [OF h1 h2] c by simp
qed

text \<open>
  Claim C8. On an instance with neither a feedback map nor a swap-texture name, \<open>swap\<close>
  fails its assertion: the call throws instead of returning, and the instance at the
  throw is the instance before the call, so the current-generation index has not
  advanced.
\<close>

theorem swap_unconfigured_fails:
  assumes "feedbackMap s = None" and "\<not> truthy (swapTexture s)"
  shows "swap s = Inl (AssertionError, s)"
  using assms by (simp add: swap_def)

theorem swap_unconfigured_fails_witness:
  "feedbackMap (initial_transform example_gl) = None \<and>
   \<not> truthy (swapTexture (initial_transform example_gl)) \<and>
   swap (initial_transform example_gl) = Inl (AssertionError, initial_transform example_gl) \<and>
   currentIndex (initial_transform example_gl) = 0"
proof -
  have h1: "feedbackMap (initial_transform example_gl) = None"
    by (simp add: initial_transform_def)
  have h2: "\<not> truthy (swapTexture (initial_transform example_gl))"
    by (simp add: initial_transform_def truthy_def)
  show ?thesis
    using h1 h2 swap_unconfigured_fails [OF h1 h2] by (simp add: initial_transform_def)
qed

section \<open>Reading a feedback buffer\<close>

text \<open>
  Claim C10. \<open>getBuffer\<close> returns null, without an error, for a name that the
  feedback-buffer table of the current generation does not bind and for a null or
  omitted name; the empty string is a falsy name and is treated as omitted. For a
  (non-empty) name bound to an object that carries a buffer, the result is the
  underlying Buffer, not the wrapper; a name bound to a Buffer gives that Buffer.
\<close>

theorem getBuffer_null_or_underlying:
  "(get_value (feedbackBuffers s (currentIndex s)) n = None \<longrightarrow> getBuffer s (Some n) = None) \<and>
   getBuffer s None = None \<and>
   getBuffer s (Some []) = None \<and>
   (n \<noteq> [] \<and> get_value (feedbackBuffers s (currentIndex s)) n = Some (HasBuffer h)
      \<longrightarrow> getBuffer s (Some n) = Some h) \<and>
   (n \<noteq> [] \<and> get_value (feedbackBuffers s (currentIndex s)) n = Some (IsBuffer h)
      \<longrightarrow> getBuffer s (Some n) = Some h)"
  by (simp add: getBuffer_def)

theorem getBuffer_null_or_underlying_witness:
  "get_value (feedbackBuffers getBuffer_example (currentIndex getBuffer_example)) ''x'' = None \<and>
   getBuffer getBuffer_example (Some ''x'') = None \<and>
   ''b'' \<noteq> [] \<and>
   get_value (feedbackBuffers getBuffer_example (currentIndex getBuffer_example)) ''b''
     = Some (HasBuffer 1) \<and>
   getBuffer getBuffer_example (Some ''b'') = Some 1"
proof -
  have u: "get_value (feedbackBuffers getBuffer_example (currentIndex getBuffer_example)) ''x'' = None"
    by (simp add: getBuffer_example_def get_value_def)
  have b: "get_value (feedbackBuffers getBuffer_example (currentIndex getBuffer_example)) ''b''
             = Some (HasBuffer 1)"
    by (simp add: getBuffer_example_def get_value_def)
  show ?thesis
    using u b getBuffer_null_or_underlying [of getBuffer_example "''x''" 1]
      getBuffer_null_or_underlying [of getBuffer_example "''b''" 1]
    by simp
qed

section \<open>Crossing the buffers of the two generations\<close>

text \<open>
  Claim C1, as amended. Let a configuration call (the constructor or \<open>update\<close>) succeed
  and leave a feedback map, an object with distinct keys, that holds the pair
  \<open>a \<rightarrow> b\<close>, where \<open>b\<close> is not the texture-output name. Then the other generation's
  source table binds \<open>a\<close> to the current generation's feedback buffer \<open>b\<close>; this holds for
  every such pair. The other generation's feedback table binds \<open>b\<close> to the current
  generation's source buffer \<open>a'\<close>, where \<open>a' \<rightarrow> b\<close> is the last pair of the map with the
  destination \<open>b\<close>; \<open>a'\<close> is \<open>a\<close> exactly when no later pair of the map has the destination
  \<open>b\<close>. So \<open>swap\<close> succeeds, and in the new current generation the source binding of
  \<open>a\<close> is the previous generation's feedback binding of \<open>b\<close> and the feedback binding of
  \<open>b\<close> is the previous generation's source binding of \<open>a'\<close>.
\<close>

theorem feedback_pair_crossed:
  assumes "update_transform p s = Inr s' \<or> new_Transform g p t = Inr s'"
      and "feedbackMap s' = Some fm"
      and "distinct (map fst fm)"
      and "(a, b) \<in> set fm"
      and "Some b \<noteq> targetTextureVarying s'"
  shows "\<exists>a' s''.
           lastSource fm b = Some a' \<and> (a', b) \<in> set fm \<and>
           (a' = a \<longleftrightarrow> (\<exists>pre post. fm = pre @ (a, b) # post \<and> b \<notin> snd ` set post)) \<and>
           get_value (sourceBuffers s' (next_index s')) a
             = get_value (feedbackBuffers s' (currentIndex s')) b \<and>
           get_value (feedbackBuffers s' (next_index s')) b
             = get_value (sourceBuffers s' (currentIndex s')) a' \<and>
           swap s' = Inr s'' \<and>
           get_value (sourceBuffers s'' (currentIndex s'')) a
             = get_value (feedbackBuffers s' (currentIndex s')) b \<and>
           get_value (feedbackBuffers s'' (currentIndex s'')) b
             = get_value (sourceBuffers s' (currentIndex s')) a'"
proof -
  obtain s1 s2 where b: "setupBuffers p s1 = Inr s2"
    and eq: "sourceBuffers s' = sourceBuffers s2" "feedbackBuffers s' = feedbackBuffers s2"
      "currentIndex s' = currentIndex s2" "feedbackMap s' = feedbackMap s2"
      "targetTextureVarying s' = targetTextureVarying s2"
    using configuration_buffers [OF assms(1)] by blast
  have fm: "feedbackMap s2 = Some fm" using assms(2) eq by simp
  have ttv: "Some b \<noteq> targetTextureVarying s2" using assms(5) eq by simp
  obtain a' where l: "lastSource fm b = Some a'"
    using lastSource_exists [OF assms(4)] by blast
  have mem: "(a', b) \<in> set fm"
    using l by (rule lastSource_mem)
  have same: "a' = a \<longleftrightarrow> (\<exists>pre post. fm = pre @ (a, b) # post \<and> b \<notin> snd ` set post)"
    using l lastSource_iff [of fm b a] by auto
  have src: "get_value (sourceBuffers s' (next_index s')) a
               = get_value (feedbackBuffers s' (currentIndex s')) b"
    using setupBuffers_crosses(1) [OF b fm ttv assms(4,3)] eq by (simp add: next_index_def)
  have dst: "get_value (feedbackBuffers s' (next_index s')) b
               = get_value (sourceBuffers s' (currentIndex s')) a'"
    using setupBuffers_crosses(2) [OF b fm ttv l] eq by (simp add: next_index_def)
  have sw: "swap s' = Inr (s'\<lparr>currentIndex := next_index s'\<rparr>)"
    using assms(2) by (simp add: swap_def next_index_def)
  show ?thesis
    using l mem same src dst sw
    by (intro exI [of _ a'] exI [of _ "s'\<lparr>currentIndex := next_index s'\<rparr>"]) simp
qed

theorem feedback_pair_crossed_witness:
  "new_Transform example_gl shared_destination_props None = Inr shared_destination_state \<and>
   feedbackMap shared_destination_state = Some [(''a'', ''c''), (''b'', ''c'')] \<and>
   targetTextureVarying shared_destination_state = None \<and>
   currentIndex shared_destination_state = 0 \<and>
   next_index shared_destination_state = 1 \<and>
   lastSource [(''a'', ''c''), (''b'', ''c'')] ''c'' = Some ''b'' \<and>
   get_value (sourceBuffers shared_destination_state 1) ''a'' = Some (IsBuffer 3) \<and>
   get_value (feedbackBuffers shared_destination_state 0) ''c'' = Some (IsBuffer 3) \<and>
   get_value (feedbackBuffers shared_destination_state 1) ''c'' = Some (IsBuffer 1) \<and>
   get_value (sourceBuffers shared_destination_state 0) ''b'' = Some (IsBuffer 1) \<and>
   (\<exists>s''. swap shared_destination_state = Inr s'' \<and>
      get_value (sourceBuffers s'' (currentIndex s'')) ''a'' = Some (IsBuffer 3) \<and>
      get_value (feedbackBuffers s'' (currentIndex s'')) ''c'' = Some (IsBuffer 1))"
proof -
  note v = shared_destination_values
  have run: "update_transform shared_destination_props shared_destination_state
               = Inr shared_destination_state \<or>
             new_Transform example_gl shared_destination_props None
               = Inr shared_destination_state"
    using v(1) by simp
  have d: "distinct (map fst [(''a'', ''c''), (''b'', ''c'')])" by simp
  have m: "(''a'', ''c'') \<in> set [(''a'', ''c''), (''b'', ''c'')]" by simp
  have ttv: "Some ''c'' \<noteq> targetTextureVarying shared_destination_state"
    by (simp add: v(3))
  have l: "lastSource [(''a'', ''c''), (''b'', ''c'')] ''c'' = Some ''b''" by simp
  obtain a' s'' where r: "lastSource [(''a'', ''c''), (''b'', ''c'')] ''c'' = Some a'"
    "get_value (sourceBuffers shared_destination_state (next_index shared_destination_state)) ''a''
       = get_value (feedbackBuffers shared_destination_state
                      (currentIndex shared_destination_state)) ''c''"
    "get_value (feedbackBuffers shared_destination_state (next_index shared_destination_state)) ''c''
       = get_value (sourceBuffers shared_destination_state
                      (currentIndex shared_destination_state)) a'"
    "swap shared_destination_state = Inr s''"
    "get_value (sourceBuffers s'' (currentIndex s'')) ''a''
       = get_value (feedbackBuffers shared_destination_state
                      (currentIndex shared_destination_state)) ''c''"
    "get_value (feedbackBuffers s'' (currentIndex s'')) ''c''
       = get_value (sourceBuffers shared_destination_state
                      (currentIndex shared_destination_state)) a'"
    using feedback_pair_crossed [OF run v(2) d m ttv] by blast
  have a': "a' = ''b''" using r(1) l by simp
  have after: "\<exists>s''. swap shared_destination_state = Inr s'' \<and>
      get_value (sourceBuffers s'' (currentIndex s'')) ''a'' = Some (IsBuffer 3) \<and>
      get_value (feedbackBuffers s'' (currentIndex s'')) ''c'' = Some (IsBuffer 1)"
    using r(4,5,6) a' v by (intro exI [of _ s'']) simp
  have "get_value (sourceBuffers shared_destination_state 1) ''a'' = Some (IsBuffer 3)"
    "get_value (feedbackBuffers shared_destination_state 1) ''c'' = Some (IsBuffer 1)"
    using r(2,3) a' v(4,5,7,8) by simp_all
  then show ?thesis
    using v l after by simp
qed

text \<open>
  The claim as stated, for every pair of every feedback map, fails on the feedback side
  for a pair that is followed by another pair with the same destination: with the map
  \<open>a \<rightarrow> c, b \<rightarrow> c\<close> the loop writes the other generation's feedback binding of \<open>c\<close>
  twice, and the source buffer of \<open>b\<close> (buffer 1) stays, not the source buffer of \<open>a\<close>
  (buffer 0).
\<close>

theorem shared_destination_counterexample:
  "new_Transform example_gl shared_destination_props None = Inr shared_destination_state \<and>
   feedbackMap shared_destination_state = Some [(''a'', ''c''), (''b'', ''c'')] \<and>
   targetTextureVarying shared_destination_state = None \<and>
   currentIndex shared_destination_state = 0 \<and>
   next_index shared_destination_state = 1 \<and>
   get_value (sourceBuffers shared_destination_state 0) ''a'' = Some (IsBuffer 0) \<and>
   get_value (feedbackBuffers shared_destination_state 1) ''c'' = Some (IsBuffer 1) \<and>
   get_value (feedbackBuffers shared_destination_state
                (next_index shared_destination_state)) ''c''
     \<noteq> get_value (sourceBuffers shared_destination_state
                    (currentIndex shared_destination_state)) ''a''"
  by (simp add: shared_destination_values shared_destination_values [unfolded One_nat_def])


section \<open>Creating feedback buffers\<close>




section \<open>Crossing the textures of the two generations\<close>




section \<open>The element-index buffer\<close>




section \<open>Routing the output of a run\<close>

text \<open>
  Claim C5. Let the inputs of a run be assembled without error. On an instance that
  renders to a texture, \<open>run\<close> needs the render target of the current generation (without
  one the assertion fails); it keeps the rasterized output (discard is false), hands the
  render target to the program with the viewport \<open>[0, 0, width, height]\<close> of the render
  target, and clears the colour of the render target before the draw unless
  \<open>clearRenderTarget\<close> is false (it defaults to true). On any other instance the
  rasterized output is discarded, no render target is passed, cleared, created or
  changed, and \<open>getFramebuffer\<close> returns none, before and after the run.
\<close>

theorem run_routing:
  "(renderingToTexture s \<and> getInputs s = Inr (attributes, s1) \<longrightarrow>
      (framebuffers s (currentIndex s) = None \<longrightarrow> run opts s = Inl (AssertionError, s1)) \<and>
      (\<forall>fb. framebuffers s (currentIndex s) = Some fb \<longrightarrow>
         run opts s =
           Inr ((if opts_clearRenderTarget opts = Some False then []
                 else [FramebufferClearColor fb]) @
                [ModelSetAttributes attributes,
                 ModelTransform
                   \<lparr>call_transformFeedback = transformFeedbacks s (currentIndex s),
                    call_discard = False,
                    call_framebuffer = Some fb,
                    call_viewport = Some (0, 0, fb_width fb, fb_height fb)\<rparr>],
                s1))) \<and>
   (\<not> renderingToTexture s \<and> getInputs s = Inr (attributes, s1) \<longrightarrow>
      run opts s =
        Inr ([ModelSetAttributes attributes,
              ModelTransform
                \<lparr>call_transformFeedback = transformFeedbacks s (currentIndex s),
                 call_discard = True,
                 call_framebuffer = None,
                 call_viewport = None\<rparr>],
             s1) \<and>
      framebuffers s1 = framebuffers s \<and> targetTextures s1 = targetTextures s) \<and>
   (\<not> renderingToTexture s \<and> reachable s \<longrightarrow>
      getFramebuffer s = None \<and>
      (\<forall>cmds s'. run opts s = Inr (cmds, s') \<longrightarrow> getFramebuffer s' = None))"
proof -
  have routed: "(framebuffers s (currentIndex s) = None \<longrightarrow> run opts s = Inl (AssertionError, s1)) \<and>
      (\<forall>fb. framebuffers s (currentIndex s) = Some fb \<longrightarrow>
         run opts s =
           Inr ((if opts_clearRenderTarget opts = Some False then []
                 else [FramebufferClearColor fb]) @
                [ModelSetAttributes attributes,
                 ModelTransform
                   \<lparr>call_transformFeedback = transformFeedbacks s (currentIndex s),
                    call_discard = False,
                    call_framebuffer = Some fb,
                    call_viewport = Some (0, 0, fb_width fb, fb_height fb)\<rparr>],
                s1))"
    if c: "renderingToTexture s" "getInputs s = Inr (attributes, s1)"
  proof -
    note f = getInputs_frame [OF c(2)]
    have g: "renderingToTexture s1" "framebuffers s1 = framebuffers s"
      "currentIndex s1 = currentIndex s" "transformFeedbacks s1 = transformFeedbacks s"
      using arg_cong [OF f, of renderingToTexture] arg_cong [OF f, of framebuffers]
        arg_cong [OF f, of currentIndex] arg_cong [OF f, of transformFeedbacks] c(1)
      by simp_all
    show ?thesis
      using c(2) g
      by (cases "opts_clearRenderTarget opts")
         (auto simp: run_def Let_def split: option.splits)
  qed
  have unrouted: "run opts s =
        Inr ([ModelSetAttributes attributes,
              ModelTransform
                \<lparr>call_transformFeedback = transformFeedbacks s (currentIndex s),
                 call_discard = True,
                 call_framebuffer = None,
                 call_viewport = None\<rparr>],
             s1) \<and>
      framebuffers s1 = framebuffers s \<and> targetTextures s1 = targetTextures s"
    if c: "\<not> renderingToTexture s" "getInputs s = Inr (attributes, s1)"
  proof -
    note f = getInputs_frame [OF c(2)]
    have g: "\<not> renderingToTexture s1" "framebuffers s1 = framebuffers s"
      "currentIndex s1 = currentIndex s" "transformFeedbacks s1 = transformFeedbacks s"
      "targetTextures s1 = targetTextures s"
      using arg_cong [OF f, of renderingToTexture] arg_cong [OF f, of framebuffers]
        arg_cong [OF f, of currentIndex] arg_cong [OF f, of transformFeedbacks]
        arg_cong [OF f, of targetTextures] c(1)
      by simp_all
    show ?thesis
      using c(2) g by (simp add: run_def Let_def)
  qed
  have none: "getFramebuffer s = None \<and>
      (\<forall>cmds s'. run opts s = Inr (cmds, s') \<longrightarrow> getFramebuffer s' = None)"
    if c: "\<not> renderingToTexture s" "reachable s"
  proof -
    have "getFramebuffer s' = None" if r: "run opts s = Inr (cmds, s')" for cmds s'
    proof -
      note f = run_frame [OF r]
      have "\<not> renderingToTexture s'"
        using arg_cong [OF f, of renderingToTexture] c(1) by simp
      then show ?thesis
        using reachable_unrouted [OF reachable.ran [OF c(2) r]]
        by (simp add: getFramebuffer_def)
    qed
    then show ?thesis
      using reachable_unrouted [OF c(2) c(1)] by (simp add: getFramebuffer_def)
  qed
  show ?thesis
    using routed unrouted none by blast
qed

theorem run_routing_witness:
  "renderingToTexture texture_state \<and>
   getInputs texture_state
     = Inr ([(''transform_elementID'', Some (IsBuffer 2))],
            texture_state\<lparr>gl := texture_setParameters 0 (gl texture_state)\<rparr>) \<and>
   framebuffers texture_state (currentIndex texture_state)
     = Some \<lparr>fb_width = 2, fb_height = 1, color_attachment0 = 2\<rparr> \<and>
   run default_run texture_state
     = Inr ([FramebufferClearColor \<lparr>fb_width = 2, fb_height = 1, color_attachment0 = 2\<rparr>,
             ModelSetAttributes [(''transform_elementID'', Some (IsBuffer 2))],
             ModelTransform
               \<lparr>call_transformFeedback = None, call_discard = False,
                call_framebuffer = Some \<lparr>fb_width = 2, fb_height = 1, color_attachment0 = 2\<rparr>,
                call_viewport = Some (0, 0, 2, 1)\<rparr>],
            texture_state\<lparr>gl := texture_setParameters 0 (gl texture_state)\<rparr>) \<and>
   run keep_run texture_state
     = Inr ([ModelSetAttributes [(''transform_elementID'', Some (IsBuffer 2))],
             ModelTransform
               \<lparr>call_transformFeedback = None, call_discard = False,
                call_framebuffer = Some \<lparr>fb_width = 2, fb_height = 1, color_attachment0 = 2\<rparr>,
                call_viewport = Some (0, 0, 2, 1)\<rparr>],
            texture_state\<lparr>gl := texture_setParameters 0 (gl texture_state)\<rparr>) \<and>
   renderingToTexture unattached_state \<and>
   framebuffers unattached_state (currentIndex unattached_state) = None \<and>
   run default_run unattached_state
     = Inl (AssertionError,
            unattached_state\<lparr>gl := texture_setParameters 0 (gl unattached_state)\<rparr>) \<and>
   \<not> renderingToTexture crossing_state \<and>
   reachable crossing_state \<and>
   getInputs crossing_state = Inr ([(''a'', Some (IsBuffer 0))], crossing_state) \<and>
   getFramebuffer crossing_state = None \<and>
   run default_run crossing_state
     = Inr ([ModelSetAttributes [(''a'', Some (IsBuffer 0))],
             ModelTransform
               \<lparr>call_transformFeedback = Some [(''b'', Some (IsBuffer 2))],
                call_discard = True, call_framebuffer = None, call_viewport = None\<rparr>],
            crossing_state)"
proof -
  define fb where "fb = \<lparr>fb_width = 2, fb_height = 1, color_attachment0 = 2\<rparr>"
  have t: "renderingToTexture texture_state"
    "framebuffers texture_state (currentIndex texture_state) = Some fb"
    "transformFeedbacks texture_state (currentIndex texture_state) = None"
    by (simp_all add: texture_state_values fb_def)
       (simp add: texture_state_def texture_props_def evaluation elementIds_exact)
  have u: "renderingToTexture unattached_state"
    "framebuffers unattached_state (currentIndex unattached_state) = None"
    by (simp_all add: unattached_state_def texture_state_values)
  have c: "reachable crossing_state"
    using crossing_succeeds by (rule reachable.constructed)
  have o: "opts_clearRenderTarget default_run = None" "opts_clearRenderTarget keep_run = Some False"
    by (simp_all add: default_run_def keep_run_def)
  have r1: "run default_run texture_state
     = Inr ([FramebufferClearColor fb,
             ModelSetAttributes [(''transform_elementID'', Some (IsBuffer 2))],
             ModelTransform
               \<lparr>call_transformFeedback = None, call_discard = False,
                call_framebuffer = Some fb, call_viewport = Some (0, 0, 2, 1)\<rparr>],
            texture_state\<lparr>gl := texture_setParameters 0 (gl texture_state)\<rparr>)"
    using run_routing [of texture_state _ _ default_run] texture_state_inputs(1) t o
    by (simp add: fb_def)
  have r2: "run keep_run texture_state
     = Inr ([ModelSetAttributes [(''transform_elementID'', Some (IsBuffer 2))],
             ModelTransform
               \<lparr>call_transformFeedback = None, call_discard = False,
                call_framebuffer = Some fb, call_viewport = Some (0, 0, 2, 1)\<rparr>],
            texture_state\<lparr>gl := texture_setParameters 0 (gl texture_state)\<rparr>)"
    using run_routing [of texture_state _ _ keep_run] texture_state_inputs(1) t o
    by (simp add: fb_def)
  have r3: "run default_run unattached_state
     = Inl (AssertionError,
            unattached_state\<lparr>gl := texture_setParameters 0 (gl unattached_state)\<rparr>)"
    using run_routing [of unattached_state _ _ default_run] texture_state_inputs(2) u
    by simp
  have r4: "getFramebuffer crossing_state = None"
    "run default_run crossing_state
     = Inr ([ModelSetAttributes [(''a'', Some (IsBuffer 0))],
             ModelTransform
               \<lparr>call_transformFeedback = Some [(''b'', Some (IsBuffer 2))],
                call_discard = True, call_framebuffer = None, call_viewport = None\<rparr>],
            crossing_state)"
    using run_routing [of crossing_state _ _ default_run] crossing_state_inputs c
    by (simp_all add: crossing_state_values)
  show ?thesis
    using t u c r1 r2 r3 r4 texture_state_inputs(1) crossing_state_inputs(1,2)
    by (simp add: fb_def)
qed

section \<open>Reading data back\<close>

text \<open>
  Claim C6. When the (non-empty) varying name is bound to a Buffer, or to an object that
  carries one, in the feedback-buffer table of the current generation, \<open>getData\<close> returns
  the contents of that buffer. Otherwise a name that is given and differs from the
  texture-output name fails the assertion. With no name (or the texture-output name),
  and a render target in the current generation, the result is the pixels read from that
  render target; with \<open>packed\<close> set, the result has
  \<open>pixels.length * channelCount / 4\<close> entries and holds, for every pixel \<open>k\<close>, the first
  \<open>channelCount\<close> of its four channels, where \<open>channelCount\<close> belongs to the type of the
  texture output.
\<close>

theorem getData_result:
  "(n \<noteq> [] \<and> (get_value (feedbackBuffers s (currentIndex s)) n = Some (IsBuffer h) \<or>
              get_value (feedbackBuffers s (currentIndex s)) n = Some (HasBuffer h)) \<longrightarrow>
      getData \<lparr>opts_varyingName = Some n, opts_packed = pk\<rparr> s
        = Inr (contents (gl_buffers (gl s) h))) \<and>
   (n \<noteq> [] \<and> getBuffer s (Some n) = None \<and> Some n \<noteq> targetTextureVarying s \<longrightarrow>
      getData \<lparr>opts_varyingName = Some n, opts_packed = pk\<rparr> s = Inl (AssertionError, s)) \<and>
   ((\<not> truthy vn \<or> vn = targetTextureVarying s) \<and> getBuffer s vn = None \<and>
    framebuffers s (currentIndex s) = Some fb \<longrightarrow>
      getData \<lparr>opts_varyingName = vn, opts_packed = False\<rparr> s
        = Inr (readPixelsToArray (gl s) fb) \<and>
      (\<forall>ty. targetTextureType s = Some ty \<longrightarrow>
         (\<exists>packed. getData \<lparr>opts_varyingName = vn, opts_packed = True\<rparr> s = Inr packed \<and>
            length packed
              = (length (readPixelsToArray (gl s) fb) * typeToChannelCount ty) div 4 \<and>
            (\<forall>k j. k < length (readPixelsToArray (gl s) fb) div 4 \<and>
                   j < typeToChannelCount ty \<longrightarrow>
               packed ! (k * typeToChannelCount ty + j)
                 = readPixelsToArray (gl s) fb ! (4 * k + j)))))"
proof -
  have bound: "getData \<lparr>opts_varyingName = Some n, opts_packed = pk\<rparr> s
        = Inr (contents (gl_buffers (gl s) h))"
    if "n \<noteq> []" "get_value (feedbackBuffers s (currentIndex s)) n = Some (IsBuffer h) \<or>
              get_value (feedbackBuffers s (currentIndex s)) n = Some (HasBuffer h)"
    using that by (auto simp: getData_def getBuffer_def)
  have other: "getData \<lparr>opts_varyingName = Some n, opts_packed = pk\<rparr> s = Inl (AssertionError, s)"
    if "n \<noteq> []" "getBuffer s (Some n) = None" "Some n \<noteq> targetTextureVarying s"
    using that by (simp add: getData_def truthy_def)
  have pixels: "getData \<lparr>opts_varyingName = vn, opts_packed = False\<rparr> s
        = Inr (readPixelsToArray (gl s) fb) \<and>
      (\<forall>ty. targetTextureType s = Some ty \<longrightarrow>
         (\<exists>packed. getData \<lparr>opts_varyingName = vn, opts_packed = True\<rparr> s = Inr packed \<and>
            length packed
              = (length (readPixelsToArray (gl s) fb) * typeToChannelCount ty) div 4 \<and>
            (\<forall>k j. k < length (readPixelsToArray (gl s) fb) div 4 \<and>
                   j < typeToChannelCount ty \<longrightarrow>
               packed ! (k * typeToChannelCount ty + j)
                 = readPixelsToArray (gl s) fb ! (4 * k + j))))"
    if c: "\<not> truthy vn \<or> vn = targetTextureVarying s" "getBuffer s vn = None"
      "framebuffers s (currentIndex s) = Some fb"
  proof -
    define px where "px = readPixelsToArray (gl s) fb"
    define m where "m = length (texels (gl_textures (gl s) (color_attachment0 fb)))"
    have len: "length px = 4 * m"
      unfolding px_def m_def by (rule readPixelsToArray_length)
    have plain: "getData \<lparr>opts_varyingName = vn, opts_packed = False\<rparr> s = Inr px"
      using c by (auto simp: getData_def px_def)
    have packed: "getData \<lparr>opts_varyingName = vn, opts_packed = True\<rparr> s
                    = Inr (packPixels px (typeToChannelCount ty))"
      if "targetTextureType s = Some ty" for ty
      using c that by (auto simp: getData_def px_def)
    have "length (packPixels px cc) = (length px * cc) div 4 \<and>
          (\<forall>k j. k < length px div 4 \<and> j < cc \<longrightarrow>
             packPixels px cc ! (k * cc + j) = px ! (4 * k + j))" for cc
      using packPixels_packs [OF len, where c = cc] len by simp
    then show ?thesis
      using plain packed unfolding px_def by blast
  qed
  show ?thesis
    using bound other pixels by blast
qed

theorem getData_result_witness:
  "get_value (feedbackBuffers readback_state (currentIndex readback_state)) ''b''
     = Some (HasBuffer 1) \<and>
   getData \<lparr>opts_varyingName = Some ''b'', opts_packed = False\<rparr> readback_state
     = Inr [0, 1, 2, 3] \<and>
   getBuffer readback_state (Some ''x'') = None \<and>
   Some ''x'' \<noteq> targetTextureVarying readback_state \<and>
   getData \<lparr>opts_varyingName = Some ''x'', opts_packed = False\<rparr> readback_state
     = Inl (AssertionError, readback_state) \<and>
   getBuffer readback_state None = None \<and>
   framebuffers readback_state (currentIndex readback_state)
     = Some \<lparr>fb_width = 2, fb_height = 1, color_attachment0 = 1\<rparr> \<and>
   getData \<lparr>opts_varyingName = None, opts_packed = False\<rparr> readback_state
     = Inr [1, 2, 3, 4, 5, 6, 7, 8] \<and>
   targetTextureType readback_state = Some VEC2 \<and>
   (\<exists>packed. getData \<lparr>opts_varyingName = None, opts_packed = True\<rparr> readback_state
                = Inr packed \<and>
      length packed = 4 \<and> packed ! 0 = 1 \<and> packed ! 1 = 2 \<and> packed ! 2 = 5 \<and> packed ! 3 = 6)"
proof -
  define fb where "fb = \<lparr>fb_width = 2, fb_height = 1, color_attachment0 = 1\<rparr>"
  have b: "get_value (feedbackBuffers readback_state (currentIndex readback_state)) ''b''
     = Some (HasBuffer 1)"
    and x: "getBuffer readback_state (Some ''x'') = None"
    and x': "Some ''x'' \<noteq> targetTextureVarying readback_state"
    and n: "getBuffer readback_state None = None"
    and f: "framebuffers readback_state (currentIndex readback_state) = Some fb"
    by (simp_all add: readback_state_values get_value_def getBuffer_def fb_def)
  have px: "readPixelsToArray (gl readback_state) fb = [1, 2, 3, 4, 5, 6, 7, 8]"
    by (simp add: readPixelsToArray_def fb_def readback_state_values [unfolded One_nat_def]
        example_texture_def)
  have cb: "contents (gl_buffers (gl readback_state) 1) = [0, 1, 2, 3]"
    by (simp add: readback_state_values [unfolded One_nat_def] example_buffer_def)
  note r1 = getData_result [of "''b''" readback_state 1 False None fb]
  note r2 = getData_result [of "''x''" readback_state 1 False None fb]
  have first: "getData \<lparr>opts_varyingName = Some ''b'', opts_packed = False\<rparr> readback_state
     = Inr [0, 1, 2, 3]"
    using r1 b cb by simp
  have second: "getData \<lparr>opts_varyingName = Some ''x'', opts_packed = False\<rparr> readback_state
     = Inl (AssertionError, readback_state)"
    using r2 x x' by simp
  have third: "getData \<lparr>opts_varyingName = None, opts_packed = False\<rparr> readback_state
     = Inr [1, 2, 3, 4, 5, 6, 7, 8]"
    using r1 n f px by (simp add: truthy_def)
  obtain packed where p: "getData \<lparr>opts_varyingName = None, opts_packed = True\<rparr> readback_state
                = Inr packed" "length packed = 4"
    "\<forall>k j. k < 2 \<and> j < 2 \<longrightarrow> packed ! (k * 2 + j) = [1, 2, 3, 4, 5, 6, 7, 8 :: real] ! (4 * k + j)"
    using r1 n f px readback_state_values(6)
    by (auto simp: truthy_def typeToChannelCount_def)
  have "packed ! 0 = 1" "packed ! 1 = 2" "packed ! 2 = 5" "packed ! 3 = 6"
    using p(3) [rule_format, of 0 0] p(3) [rule_format, of 0 1]
      p(3) [rule_format, of 1 0] p(3) [rule_format, of 1 1]
    by simp_all
  then show ?thesis
    using b x x' n f first second third p(1,2)
    by (simp add: readback_state_values fb_def)
qed

section \<open>The registry of owned resources\<close>

text \<open>
  Claim C9. The registry is written in two places only: \<open>createNewBuffer\<close>, which makes
  the automatic feedback buffers and the element-index buffer, and \<open>buildTargetTexture\<close>,
  which clones the target texture. Each registers the new resource under its name, and
  a resource that was registered under that name before is destroyed by then; the new
  resource is live, and every other entry of the registry is as it was. So no entry is
  replaced without its resource being released.
\<close>

theorem registry_replacement:
  "(\<forall>h s'. createNewBuffer name opts s = (h, s') \<longrightarrow>
      get_prop (resources s') name = Some (BufferResource h) \<and>
      h = gl_nextBuffer (gl s) \<and>
      (\<forall>r. get_prop (resources s) name = Some r \<longrightarrow>
         resource_deleted r (gl s') \<and>
         (r \<noteq> BufferResource h \<longrightarrow> \<not> resource_deleted (BufferResource h) (gl s'))) \<and>
      (get_prop (resources s) name = None \<longrightarrow>
         \<not> resource_deleted (BufferResource h) (gl s')) \<and>
      (\<forall>other. other \<noteq> name \<longrightarrow> get_prop (resources s') other = get_prop (resources s) other)) \<and>
   (\<forall>h s'. buildTargetTexture (TargetRef ref) index s = Inr (h, s') \<longrightarrow>
      get_prop (resources s') (target_texture_name index) = Some (TextureResource h) \<and>
      h = gl_nextTexture (gl s) \<and>
      (\<forall>r. get_prop (resources s) (target_texture_name index) = Some r \<longrightarrow>
         resource_deleted r (gl s') \<and>
         (r \<noteq> TextureResource h \<longrightarrow> \<not> resource_deleted (TextureResource h) (gl s'))) \<and>
      (get_prop (resources s) (target_texture_name index) = None \<longrightarrow>
         \<not> resource_deleted (TextureResource h) (gl s')) \<and>
      (\<forall>other. other \<noteq> target_texture_name index \<longrightarrow>
         get_prop (resources s') other = get_prop (resources s) other))"
proof -
  have buffer: "get_prop (resources s') name = Some (BufferResource h) \<and>
      h = gl_nextBuffer (gl s) \<and>
      (\<forall>r. get_prop (resources s) name = Some r \<longrightarrow>
         resource_deleted r (gl s') \<and>
         (r \<noteq> BufferResource h \<longrightarrow> \<not> resource_deleted (BufferResource h) (gl s'))) \<and>
      (get_prop (resources s) name = None \<longrightarrow>
         \<not> resource_deleted (BufferResource h) (gl s')) \<and>
      (\<forall>other. other \<noteq> name \<longrightarrow> get_prop (resources s') other = get_prop (resources s) other)"
    if c: "createNewBuffer name opts s = (h, s')" for h s'
  proof -
    have h: "h = gl_nextBuffer (gl s)"
      and s': "s' = s\<lparr>gl := (case get_prop (resources s) name of
                 Some r \<Rightarrow> delete_resource r (snd (new_Buffer (gl s) opts))
               | None \<Rightarrow> snd (new_Buffer (gl s) opts)),
        resources := set_prop name (BufferResource (gl_nextBuffer (gl s))) (resources s)\<rparr>"
      using c by (auto simp: createNewBuffer_eq)
    have fresh: "\<not> buffer_deleted (gl_buffers (snd (new_Buffer (gl s) opts)) h)"
      by (simp add: new_Buffer_def make_buffer_def h Let_def)
    have old: "resource_deleted r (gl s') \<and>
         (r \<noteq> BufferResource h \<longrightarrow> \<not> resource_deleted (BufferResource h) (gl s'))"
      if "get_prop (resources s) name = Some r" for r
      using that fresh
      by (cases r)
         (auto simp: s' delete_resource_deleted resource_deleted_def delete_resource_def)
    have none: "\<not> resource_deleted (BufferResource h) (gl s')"
      if "get_prop (resources s) name = None"
      using that fresh by (simp add: s' resource_deleted_def)
    show ?thesis
      using h old none by (simp add: s' get_prop_set_prop)
  qed
  have tex: "get_prop (resources s') (target_texture_name index) = Some (TextureResource h) \<and>
      h = gl_nextTexture (gl s) \<and>
      (\<forall>r. get_prop (resources s) (target_texture_name index) = Some r \<longrightarrow>
         resource_deleted r (gl s') \<and>
         (r \<noteq> TextureResource h \<longrightarrow> \<not> resource_deleted (TextureResource h) (gl s'))) \<and>
      (get_prop (resources s) (target_texture_name index) = None \<longrightarrow>
         \<not> resource_deleted (TextureResource h) (gl s')) \<and>
      (\<forall>other. other \<noteq> target_texture_name index \<longrightarrow>
         get_prop (resources s') other = get_prop (resources s) other)"
    if b: "buildTargetTexture (TargetRef ref) index s = Inr (h, s')" for h s'
  proof -
    obtain t0 where t0: "get_value (sourceTextures s index) ref = Some t0"
      using b by (auto simp: buildTargetTexture_def split: option.splits)
    define g1 where "g1 = snd (cloneTextureFrom (gl s) t0)"
    have h: "h = gl_nextTexture (gl s)"
      and s': "s' = s\<lparr>targetRefTexName := Some ref,
                     gl := (case get_prop (resources s) (target_texture_name index) of
                              Some r \<Rightarrow> delete_resource r g1
                            | None \<Rightarrow> g1),
                     resources := set_prop (target_texture_name index)
                                    (TextureResource (gl_nextTexture (gl s))) (resources s)\<rparr>"
      using b t0
      by (auto simp: buildTargetTexture_def Let_def g1_def cloneTextureFrom_def
          split: option.splits)
    have fresh: "\<not> texture_deleted (gl_textures g1 h)"
      by (simp add: g1_def cloneTextureFrom_def h)
    have old: "resource_deleted r (gl s') \<and>
         (r \<noteq> TextureResource h \<longrightarrow> \<not> resource_deleted (TextureResource h) (gl s'))"
      if "get_prop (resources s) (target_texture_name index) = Some r" for r
      using that fresh
      by (cases r)
         (auto simp: s' delete_resource_deleted resource_deleted_def delete_resource_def)
    have none: "\<not> resource_deleted (TextureResource h) (gl s')"
      if "get_prop (resources s) (target_texture_name index) = None"
      using that fresh by (simp add: s' resource_deleted_def)
    show ?thesis
      using h old none by (simp add: s' get_prop_set_prop)
  qed
  show ?thesis
    using buffer tex by blast
qed

theorem registry_replacement_witness:
  "get_prop (resources replaced_example) ''b'' = Some (BufferResource 1) \<and>
   \<not> resource_deleted (BufferResource 1) (gl replaced_example) \<and>
   (\<exists>s'. createNewBuffer ''b'' (source_opts example_gl (IsBuffer 0)) replaced_example
            = (2, s') \<and>
      get_prop (resources s') ''b'' = Some (BufferResource 2) \<and>
      resource_deleted (BufferResource 1) (gl s') \<and>
      \<not> resource_deleted (BufferResource 2) (gl s')) \<and>
   get_prop (resources replaced_example) ''target-texture-0'' = Some (TextureResource 1) \<and>
   (\<exists>s'. buildTargetTexture (TargetRef ''tex'') 0 replaced_example = Inr (2, s') \<and>
      get_prop (resources s') ''target-texture-0'' = Some (TextureResource 2) \<and>
      resource_deleted (TextureResource 1) (gl s') \<and>
      \<not> resource_deleted (TextureResource 2) (gl s'))"
proof -
  obtain h1 s1 where c: "createNewBuffer ''b'' (source_opts example_gl (IsBuffer 0))
                           replaced_example = (h1, s1)"
    by (cases "createNewBuffer ''b'' (source_opts example_gl (IsBuffer 0)) replaced_example")
  have r1: "get_prop (resources replaced_example) ''b'' = Some (BufferResource 1)"
    and r2: "get_prop (resources replaced_example) ''target-texture-0'' = Some (TextureResource 1)"
    and live: "\<not> resource_deleted (BufferResource 1) (gl replaced_example)"
    and n: "gl_nextBuffer (gl replaced_example) = 2" "gl_nextTexture (gl replaced_example) = 2"
    by (simp_all add: replaced_example_def initial_transform_def get_prop_def
        resource_deleted_def example_gl_def example_buffer_def)
  obtain s2 where b: "buildTargetTexture (TargetRef ''tex'') 0 replaced_example = Inr (2, s2)"
    by (simp add: buildTargetTexture_def replaced_example_def initial_transform_def
        get_value_def cloneTextureFrom_def example_gl_def Let_def split: option.splits)
  note t = registry_replacement [of "''b''" "source_opts example_gl (IsBuffer 0)"
      replaced_example "''tex''" 0]
  have h1: "h1 = 2"
    using t c n by auto
  have buf: "get_prop (resources s1) ''b'' = Some (BufferResource 2)"
    "resource_deleted (BufferResource 1) (gl s1)"
    "\<not> resource_deleted (BufferResource 2) (gl s1)"
    using t c r1 h1 by auto
  have tex: "get_prop (resources s2) ''target-texture-0'' = Some (TextureResource 2)"
    "resource_deleted (TextureResource 1) (gl s2)"
    "\<not> resource_deleted (TextureResource 2) (gl s2)"
    using t b r2 n by (auto simp: target_texture_name_def)
  show ?thesis
    using r1 r2 live buf tex b c h1 by auto
qed

end
